theory Spec2Isabelle
  imports Complex_Main
begin

section \<open>Python and NumPy primitives used by the two scripts\<close>

text \<open>
  The scripts compute with IEEE doubles; the embedding computes with exact real numbers, so
  rounding is not represented. Everything that is not rounding is: Python's float division
  raises \<open>ZeroDivisionError\<close> on a zero divisor, \<open>int()\<close> truncates towards zero,
  \<open>np.linspace\<close> and \<open>np.zeros\<close> refuse a negative length, array indexing raises out of
  range, and a NumPy scalar divided by zero is \<open>nan\<close> or \<open>inf\<close> rather than an exception.
\<close>

datatype error = ZeroDivisionError | ValueError | IndexError | LinAlgError

text \<open>An exception ends the computation: the rest runs only on a value.\<close>

definition err_bind :: "error + 'a \<Rightarrow> ('a \<Rightarrow> error + 'b) \<Rightarrow> error + 'b" where
  "err_bind m f = (case m of Inl e \<Rightarrow> Inl e | Inr v \<Rightarrow> f v)"

definition py_div :: "real \<Rightarrow> real \<Rightarrow> error + real" where
  "py_div a b = (if b = 0 then Inl ZeroDivisionError else Inr (a / b))"

definition py_int :: "real \<Rightarrow> int" where
  "py_int q = (if 0 \<le> q then \<lfloor>q\<rfloor> else \<lceil>q\<rceil>)"

definition py_range :: "int \<Rightarrow> nat list" where
  "py_range m = [0..<nat m]"

definition linspace :: "real \<Rightarrow> real \<Rightarrow> int \<Rightarrow> error + real list" where
  "linspace start stop num =
     (if num < 0 then Inl ValueError
      else if num = 1 then Inr [start]
      else Inr (map (\<lambda>i. start + real i * ((stop - start) / real_of_int (num - 1)))
                  [0..<nat num]))"

definition np_zeros :: "int \<Rightarrow> error + real list" where
  "np_zeros num = (if num < 0 then Inl ValueError else Inr (replicate (nat num) 0))"

definition np_get :: "'a list \<Rightarrow> nat \<Rightarrow> error + 'a" where
  "np_get xs i = (if i < length xs then Inr (xs ! i) else Inl IndexError)"

definition np_set :: "'a list \<Rightarrow> nat \<Rightarrow> 'a \<Rightarrow> error + 'a list" where
  "np_set xs i v = (if i < length xs then Inr (xs[i := v]) else Inl IndexError)"

section \<open>The series RL script (second half of CIrcuitoPiSerie.py)\<close>

text \<open>
  The constants at the top of the script are the fields of \<open>rl_config\<close>; the resistance
  schedule is a field too, and \<open>pegar_resistencia\<close> is the one the script defines.
\<close>

definition pegar_resistencia :: "real \<Rightarrow> real" where
  "pegar_resistencia time = (if time < 0.05 then 10.0 else 1.0)"

record rl_config =
  rl_L :: real
  rl_V_fonte :: real
  rl_t_max :: real
  rl_dt :: real
  rl_resistencia :: "real \<Rightarrow> real"

definition rl_default :: rl_config where
  "rl_default = \<lparr>rl_L = 0.1, rl_V_fonte = 220.0, rl_t_max = 0.1, rl_dt = 1 / 100000,
                  rl_resistencia = pegar_resistencia\<rparr>"

text \<open>The variables the loop reads and writes.\<close>

record rl_vars =
  rl_t :: "real list"
  rl_i_L :: "real list"
  rl_v_R :: "real list"
  rl_v_L :: "real list"
  rl_x :: real

definition lado_esquerdo :: "real \<Rightarrow> real \<Rightarrow> real" where
  "lado_esquerdo dt A = 1 - (dt / 2) * A"

definition lado_direito :: "real \<Rightarrow> real \<Rightarrow> real \<Rightarrow> real \<Rightarrow> real \<Rightarrow> real" where
  "lado_direito dt A B x u = (1 + (dt / 2) * A) * x + dt * B * u"

text \<open>One pass through the body of the \<open>for n in range(n_steps - 1)\<close> loop.\<close>

definition rl_body :: "rl_config \<Rightarrow> nat \<Rightarrow> rl_vars \<Rightarrow> error + rl_vars" where
  "rl_body c n s =
     err_bind (np_get (rl_t s) n) (\<lambda>t_n.
     let R_n = rl_resistencia c t_n in
     err_bind (py_div (- R_n) (rl_L c)) (\<lambda>A.
     err_bind (py_div 1 (rl_L c)) (\<lambda>B.
     err_bind (py_div (lado_direito (rl_dt c) A B (rl_x s) (rl_V_fonte c))
                      (lado_esquerdo (rl_dt c) A)) (\<lambda>x_proximo.
     err_bind (np_set (rl_i_L s) (n + 1) x_proximo) (\<lambda>i_L'.
     err_bind (np_get (rl_t s) (n + 1)) (\<lambda>t_n1.
     let R_proxima = rl_resistencia c t_n1 in
     err_bind (np_get i_L' (n + 1)) (\<lambda>i_n1.
     err_bind (np_set (rl_v_R s) (n + 1) (R_proxima * i_n1)) (\<lambda>v_R'.
     err_bind (np_get v_R' (n + 1)) (\<lambda>vr_n1.
     err_bind (np_set (rl_v_L s) (n + 1) (rl_V_fonte c - vr_n1)) (\<lambda>v_L'.
     Inr \<lparr>rl_t = rl_t s, rl_i_L = i_L', rl_v_R = v_R', rl_v_L = v_L',
          rl_x = x_proximo\<rparr>))))))))))"

fun rl_loop :: "rl_config \<Rightarrow> nat list \<Rightarrow> rl_vars \<Rightarrow> error + rl_vars" where
  "rl_loop c [] s = Inr s"
| "rl_loop c (n # ns) s = err_bind (rl_body c n s) (rl_loop c ns)"

text \<open>The script from \<open>n_steps = int(t_max / dt)\<close> to the end of the loop.\<close>

definition rl_script :: "rl_config \<Rightarrow> error + rl_vars" where
  "rl_script c =
     err_bind (py_div (rl_t_max c) (rl_dt c)) (\<lambda>q.
     let n_steps = py_int q in
     err_bind (linspace 0 (rl_t_max c) n_steps) (\<lambda>t.
     err_bind (np_zeros n_steps) (\<lambda>z.
     rl_loop c (py_range (n_steps - 1))
       \<lparr>rl_t = t, rl_i_L = z, rl_v_R = z, rl_v_L = z, rl_x = 0.0\<rparr>)))"

section \<open>The RLC script with a load step (test.py)\<close>

text \<open>
  A NumPy scalar divided by zero does not raise: the quotient is \<open>nan\<close> for a zero
  numerator and an infinity otherwise (the zero divisor taken as \<open>+0.0\<close>).
\<close>

datatype npfloat = Finite real | PosInf | NegInf | NaN

definition np_divide :: "real \<Rightarrow> real \<Rightarrow> npfloat" where
  "np_divide a b =
     (if b \<noteq> 0 then Finite (a / b)
      else if a = 0 then NaN else if 0 < a then PosInf else NegInf)"

text \<open>Vectors of two numbers and matrices of two rows, as the script's arrays are.\<close>

type_synonym vec2 = "real \<times> real"
type_synonym mat2 = "vec2 \<times> vec2"

definition eye2 :: mat2 where
  "eye2 = ((1, 0), (0, 1))"

fun mat_scale :: "real \<Rightarrow> mat2 \<Rightarrow> mat2" where
  "mat_scale k ((a, b), (c, d)) = ((k * a, k * b), (k * c, k * d))"

fun mat_sub :: "mat2 \<Rightarrow> mat2 \<Rightarrow> mat2" where
  "mat_sub ((a, b), (c, d)) ((a', b'), (c', d')) = ((a - a', b - b'), (c - c', d - d'))"

fun mat_add :: "mat2 \<Rightarrow> mat2 \<Rightarrow> mat2" where
  "mat_add ((a, b), (c, d)) ((a', b'), (c', d')) = ((a + a', b + b'), (c + c', d + d'))"

fun mat_vec :: "mat2 \<Rightarrow> vec2 \<Rightarrow> vec2" where
  "mat_vec ((a, b), (c, d)) (p, q) = (a * p + b * q, c * p + d * q)"

fun vec_add :: "vec2 \<Rightarrow> vec2 \<Rightarrow> vec2" where
  "vec_add (p, q) (p', q') = (p + p', q + q')"

fun vec_scale :: "real \<Rightarrow> vec2 \<Rightarrow> vec2" where
  "vec_scale k (p, q) = (k * p, k * q)"

text \<open>
  \<open>np.linalg.solve\<close> belongs to NumPy, not to the repository. It is taken by its contract:
  \<open>LinAlgError\<close> for a singular matrix, the unique solution otherwise.
\<close>

fun linalg_solve :: "mat2 \<Rightarrow> vec2 \<Rightarrow> error + vec2" where
  "linalg_solve ((a, b), (c, d)) (r1, r2) =
     (let det = a * d - b * c
      in if det = 0 then Inl LinAlgError
         else Inr ((d * r1 - b * r2) / det, (a * r2 - c * r1) / det))"

definition load_resistance :: "real \<Rightarrow> real \<Rightarrow> real" where
  "load_resistance R_load_initial time_step =
     (if time_step < 0.005 then R_load_initial else R_load_initial / 2)"

record rlc_config =
  rlc_L :: real
  rlc_C :: real
  rlc_V_source :: real
  rlc_t_max :: real
  rlc_dt :: real
  rlc_load_resistance :: "real \<Rightarrow> real"

definition rlc_default :: rlc_config where
  "rlc_default = \<lparr>rlc_L = 0.01, rlc_C = 1 / 1000000, rlc_V_source = 100, rlc_t_max = 0.01,
                   rlc_dt = 1 / 1000000, rlc_load_resistance = load_resistance 50\<rparr>"

record rlc_vars =
  rlc_t :: "real list"
  rlc_i_L :: "real list"
  rlc_v_C :: "real list"
  rlc_i_load :: "npfloat list"
  rlc_x :: vec2

text \<open>The array literal \<open>[[0, -1/L], [1/C, -1/(R_load_n * C)]]\<close>, entry by entry.\<close>

definition A_load :: "real \<Rightarrow> real \<Rightarrow> real \<Rightarrow> error + mat2" where
  "A_load Lv Cv R_load_n =
     err_bind (py_div (- 1) Lv) (\<lambda>a01.
     err_bind (py_div 1 Cv) (\<lambda>a10.
     err_bind (py_div (- 1) (R_load_n * Cv)) (\<lambda>a11.
     Inr ((0, a01), (a10, a11)))))"

definition left_side :: "real \<Rightarrow> mat2 \<Rightarrow> mat2" where
  "left_side dt A = mat_sub eye2 (mat_scale (dt / 2) A)"

definition right_side_matrix :: "real \<Rightarrow> mat2 \<Rightarrow> mat2" where
  "right_side_matrix dt A = mat_add eye2 (mat_scale (dt / 2) A)"

definition right_side_vector :: "real \<Rightarrow> mat2 \<Rightarrow> vec2 \<Rightarrow> vec2 \<Rightarrow> vec2" where
  "right_side_vector dt A x u_vec = vec_add (mat_vec (right_side_matrix dt A) x) (vec_scale dt u_vec)"

definition rlc_body :: "rlc_config \<Rightarrow> vec2 \<Rightarrow> nat \<Rightarrow> rlc_vars \<Rightarrow> error + rlc_vars" where
  "rlc_body c u_vec n s =
     err_bind (np_get (rlc_t s) n) (\<lambda>t_n.
     let R_load_n = rlc_load_resistance c t_n in
     err_bind (A_load (rlc_L c) (rlc_C c) R_load_n) (\<lambda>A.
     err_bind (linalg_solve (left_side (rlc_dt c) A)
                            (right_side_vector (rlc_dt c) A (rlc_x s) u_vec)) (\<lambda>x_next.
     err_bind (np_set (rlc_i_L s) (n + 1) (fst x_next)) (\<lambda>i_L'.
     err_bind (np_set (rlc_v_C s) (n + 1) (snd x_next)) (\<lambda>v_C'.
     err_bind (np_get v_C' (n + 1)) (\<lambda>vc_n1.
     err_bind (np_get (rlc_t s) (n + 1)) (\<lambda>t_n1.
     err_bind (np_set (rlc_i_load s) (n + 1)
                 (np_divide vc_n1 (rlc_load_resistance c t_n1))) (\<lambda>i_load'.
     Inr \<lparr>rlc_t = rlc_t s, rlc_i_L = i_L', rlc_v_C = v_C', rlc_i_load = i_load',
          rlc_x = x_next\<rparr>))))))))"

fun rlc_loop :: "rlc_config \<Rightarrow> vec2 \<Rightarrow> nat list \<Rightarrow> rlc_vars \<Rightarrow> error + rlc_vars" where
  "rlc_loop c u_vec [] s = Inr s"
| "rlc_loop c u_vec (n # ns) s = err_bind (rlc_body c u_vec n s) (rlc_loop c u_vec ns)"

definition rlc_script :: "rlc_config \<Rightarrow> error + rlc_vars" where
  "rlc_script c =
     err_bind (py_div (rlc_t_max c) (rlc_dt c)) (\<lambda>q.
     let n_steps = py_int q in
     err_bind (linspace 0 (rlc_t_max c) n_steps) (\<lambda>t.
     err_bind (np_zeros n_steps) (\<lambda>z.
     err_bind (py_div (rlc_V_source c) (rlc_L c)) (\<lambda>u0.
     rlc_loop c (u0, 0) (py_range (n_steps - 1))
       \<lparr>rlc_t = t, rlc_i_L = z, rlc_v_C = z, rlc_i_load = map Finite z,
        rlc_x = (0.0, 0.0)\<rparr>))))"

section \<open>Auxiliary definitions: invariants of the loops and small runs\<close>

text \<open>The value the body of the RL loop computes for \<open>x_proximo\<close> at step \<open>n\<close>.\<close>

definition rl_x_proximo :: "rl_config \<Rightarrow> nat \<Rightarrow> rl_vars \<Rightarrow> real" where
  "rl_x_proximo c n s =
     lado_direito (rl_dt c) (- rl_resistencia c (rl_t s ! n) / rl_L c) (1 / rl_L c)
        (rl_x s) (rl_V_fonte c)
     / lado_esquerdo (rl_dt c) (- rl_resistencia c (rl_t s ! n) / rl_L c)"

text \<open>What holds of the RL script's variables after the passes \<open>0, ..., m - 1\<close> on arrays of
  length \<open>N\<close>.\<close>

definition rl_inv :: "rl_config \<Rightarrow> nat \<Rightarrow> nat \<Rightarrow> rl_vars \<Rightarrow> bool" where
  "rl_inv c N m s \<longleftrightarrow>
     length (rl_t s) = N \<and> length (rl_i_L s) = N \<and> length (rl_v_R s) = N
     \<and> length (rl_v_L s) = N \<and> (m = 0 \<or> m < N)
     \<and> (m < N \<longrightarrow> rl_x s = rl_i_L s ! m)
     \<and> (0 < N \<longrightarrow> rl_i_L s ! 0 = 0 \<and> rl_v_R s ! 0 = 0 \<and> rl_v_L s ! 0 = 0)
     \<and> (\<forall>k<m. rl_L c \<noteq> 0
            \<and> lado_esquerdo (rl_dt c) (- rl_resistencia c (rl_t s ! k) / rl_L c) \<noteq> 0
            \<and> rl_i_L s ! (k + 1) =
                lado_direito (rl_dt c) (- rl_resistencia c (rl_t s ! k) / rl_L c) (1 / rl_L c)
                  (rl_i_L s ! k) (rl_V_fonte c)
                / lado_esquerdo (rl_dt c) (- rl_resistencia c (rl_t s ! k) / rl_L c))
     \<and> (\<forall>k. 1 \<le> k \<and> k \<le> m \<longrightarrow>
            rl_v_R s ! k = rl_resistencia c (rl_t s ! k) * rl_i_L s ! k
            \<and> rl_v_L s ! k = rl_V_fonte c - rl_v_R s ! k)"

text \<open>The script's \<open>n_steps\<close>, for a time step that is not zero.\<close>

definition rl_n_steps :: "rl_config \<Rightarrow> int" where
  "rl_n_steps c = py_int (rl_t_max c / rl_dt c)"

text \<open>Building the matrix for a load resistance and solving for the next state, as the body of
  the RLC loop does.\<close>

definition rlc_advance :: "rlc_config \<Rightarrow> vec2 \<Rightarrow> real \<Rightarrow> vec2 \<Rightarrow> error + vec2" where
  "rlc_advance c u_vec R_load_n x =
     err_bind (A_load (rlc_L c) (rlc_C c) R_load_n) (\<lambda>A.
     linalg_solve (left_side (rlc_dt c) A) (right_side_vector (rlc_dt c) A x u_vec))"

definition rlc_x_next :: "rlc_config \<Rightarrow> vec2 \<Rightarrow> nat \<Rightarrow> rlc_vars \<Rightarrow> error + vec2" where
  "rlc_x_next c u_vec n s =
     rlc_advance c u_vec (rlc_load_resistance c (rlc_t s ! n)) (rlc_x s)"

text \<open>What holds of the RLC script's variables after the passes \<open>0, ..., m - 1\<close> on arrays of
  length \<open>N\<close>, for the input vector \<open>u\<close>.\<close>

definition rlc_inv :: "rlc_config \<Rightarrow> vec2 \<Rightarrow> nat \<Rightarrow> nat \<Rightarrow> rlc_vars \<Rightarrow> bool" where
  "rlc_inv c u N m s \<longleftrightarrow>
     length (rlc_t s) = N \<and> length (rlc_i_L s) = N \<and> length (rlc_v_C s) = N
     \<and> length (rlc_i_load s) = N \<and> (m = 0 \<or> m < N)
     \<and> (m < N \<longrightarrow> rlc_x s = (rlc_i_L s ! m, rlc_v_C s ! m))
     \<and> (0 < N \<longrightarrow> rlc_i_L s ! 0 = 0 \<and> rlc_v_C s ! 0 = 0 \<and> rlc_i_load s ! 0 = Finite 0)
     \<and> (\<forall>k<m. rlc_advance c u (rlc_load_resistance c (rlc_t s ! k))
                  (rlc_i_L s ! k, rlc_v_C s ! k)
               = Inr (rlc_i_L s ! (k + 1), rlc_v_C s ! (k + 1)))
     \<and> (\<forall>k. 1 \<le> k \<and> k \<le> m \<longrightarrow>
            rlc_i_load s ! k = np_divide (rlc_v_C s ! k) (rlc_load_resistance c (rlc_t s ! k)))"

definition rlc_n_steps :: "rlc_config \<Rightarrow> int" where
  "rlc_n_steps c = py_int (rlc_t_max c / rlc_dt c)"

text \<open>Two small configurations, with grids of two points, on which the scripts are evaluated
  in full.\<close>

definition rl_two_point :: rl_config where
  "rl_two_point = \<lparr>rl_L = 0.1, rl_V_fonte = 220.0, rl_t_max = 0.1, rl_dt = 0.05,
                    rl_resistencia = pegar_resistencia\<rparr>"

definition rlc_two_point :: rlc_config where
  "rlc_two_point = \<lparr>rlc_L = 1, rlc_C = 1, rlc_V_source = 1, rlc_t_max = 2, rlc_dt = 1,
                     rlc_load_resistance = load_resistance 50\<rparr>"

text \<open>A load that becomes a dead short (0 ohm) at \<open>t = 1\<close>, with a zero source.\<close>

definition rlc_short :: rlc_config where
  "rlc_short = \<lparr>rlc_L = 1, rlc_C = 1, rlc_V_source = 0, rlc_t_max = 2, rlc_dt = 1,
                 rlc_load_resistance = (\<lambda>time_step. if time_step < 1 then 1 else 0)\<rparr>"

text \<open>The RL script with its own constants and the resistance held at 10 ohm.\<close>

definition rl_constant_R :: rl_config where
  "rl_constant_R = rl_default\<lparr>rl_resistencia := (\<lambda>time. 10.0)\<rparr>"

section \<open>Properties\<close>

lemma err_bind_Inl [simp]: "err_bind (Inl e) f = Inl e"
  by (simp add: err_bind_def)

lemma err_bind_Inr [simp]: "err_bind (Inr v) f = f v"
  by (simp add: err_bind_def)

lemma err_bind_eq_Inr: "err_bind m f = Inr y \<longleftrightarrow> (\<exists>v. m = Inr v \<and> f v = Inr y)"
  by (cases m) simp_all

lemma py_div_eq_Inr: "py_div a b = Inr q \<longleftrightarrow> b \<noteq> 0 \<and> q = a / b"
  by (auto simp: py_div_def)

lemma np_get_eq_Inr: "np_get xs i = Inr v \<longleftrightarrow> i < length xs \<and> v = xs ! i"
  by (auto simp: np_get_def)

lemma np_set_eq_Inr: "np_set xs i v = Inr ys \<longleftrightarrow> i < length xs \<and> ys = xs[i := v]"
  by (auto simp: np_set_def)

lemma rl_body_eq_Inr:
  "rl_body c n s = Inr s' \<longleftrightarrow>
     n + 1 < length (rl_t s) \<and> n + 1 < length (rl_i_L s) \<and> n + 1 < length (rl_v_R s)
     \<and> n + 1 < length (rl_v_L s) \<and> rl_L c \<noteq> 0
     \<and> lado_esquerdo (rl_dt c) (- rl_resistencia c (rl_t s ! n) / rl_L c) \<noteq> 0
     \<and> s' = \<lparr>rl_t = rl_t s,
             rl_i_L = (rl_i_L s)[n + 1 := rl_x_proximo c n s],
             rl_v_R = (rl_v_R s)[n + 1 := rl_resistencia c (rl_t s ! (n + 1)) * rl_x_proximo c n s],
             rl_v_L = (rl_v_L s)[n + 1 := rl_V_fonte c
                         - rl_resistencia c (rl_t s ! (n + 1)) * rl_x_proximo c n s],
             rl_x = rl_x_proximo c n s\<rparr>"
  unfolding rl_body_def Let_def err_bind_eq_Inr py_div_eq_Inr np_get_eq_Inr np_set_eq_Inr
    rl_x_proximo_def
  by auto

lemma rl_loop_append: "rl_loop c (ns @ ms) s = err_bind (rl_loop c ns s) (rl_loop c ms)"
  by (induction ns arbitrary: s) (auto simp: err_bind_def split: sum.splits)

lemma rl_inv_step:
  assumes inv: "rl_inv c N m s" and body: "rl_body c m s = Inr s'"
  shows "rl_inv c N (Suc m) s' \<and> rl_t s' = rl_t s"
proof -
  from body have b: "m + 1 < length (rl_t s)" "m + 1 < length (rl_i_L s)"
      "m + 1 < length (rl_v_R s)" "m + 1 < length (rl_v_L s)" "rl_L c \<noteq> 0"
      "lado_esquerdo (rl_dt c) (- rl_resistencia c (rl_t s ! m) / rl_L c) \<noteq> 0"
    and s': "s' = \<lparr>rl_t = rl_t s,
             rl_i_L = (rl_i_L s)[m + 1 := rl_x_proximo c m s],
             rl_v_R = (rl_v_R s)[m + 1 := rl_resistencia c (rl_t s ! (m + 1)) * rl_x_proximo c m s],
             rl_v_L = (rl_v_L s)[m + 1 := rl_V_fonte c
                         - rl_resistencia c (rl_t s ! (m + 1)) * rl_x_proximo c m s],
             rl_x = rl_x_proximo c m s\<rparr>"
    unfolding rl_body_eq_Inr by blast+
  from inv b have xm: "rl_x s = rl_i_L s ! m" by (simp add: rl_inv_def)
  have xp: "rl_x_proximo c m s =
      lado_direito (rl_dt c) (- rl_resistencia c (rl_t s ! m) / rl_L c) (1 / rl_L c)
                  (rl_i_L s ! m) (rl_V_fonte c)
                / lado_esquerdo (rl_dt c) (- rl_resistencia c (rl_t s ! m) / rl_L c)"
    by (simp add: rl_x_proximo_def xm)
  show ?thesis
    using inv b unfolding rl_inv_def s' xp
    by (auto simp: nth_list_update less_Suc_eq le_Suc_eq)
qed

lemma rl_loop_inv:
  "rl_inv c N 0 s0 \<Longrightarrow> rl_loop c [0..<m] s0 = Inr s \<Longrightarrow> rl_inv c N m s \<and> rl_t s = rl_t s0"
proof (induction m arbitrary: s)
  case 0
  then show ?case by simp
next
  case (Suc m)
  from Suc.prems(2) obtain s1 where s1: "rl_loop c [0..<m] s0 = Inr s1"
    and b: "rl_body c m s1 = Inr s"
    by (auto simp: rl_loop_append err_bind_eq_Inr)
  from Suc.IH[OF Suc.prems(1) s1] have "rl_inv c N m s1" "rl_t s1 = rl_t s0" by simp_all
  with rl_inv_step[OF _ b] show ?case by simp
qed

lemma linspace_eq_Inr:
  "linspace a b n = Inr t \<Longrightarrow> 0 \<le> n \<and> length t = nat n
     \<and> (\<forall>i<nat n. t ! i = a + real i * ((b - a) / real_of_int (n - 1)))"
  by (auto simp: linspace_def split: if_splits)

lemma np_zeros_eq_Inr: "np_zeros n = Inr z \<longleftrightarrow> 0 \<le> n \<and> z = replicate (nat n) 0"
  by (auto simp: np_zeros_def)

lemma nat_pred: "nat (x - 1) = nat x - 1"
  by arith

lemma linspace_ok: "0 \<le> n \<Longrightarrow> \<exists>t. linspace a b n = Inr t"
  by (simp add: linspace_def)

lemma rl_script_unfold:
  "rl_script c = Inr s \<longleftrightarrow>
     rl_dt c \<noteq> 0 \<and> 0 \<le> rl_n_steps c
     \<and> (\<exists>t. linspace 0 (rl_t_max c) (rl_n_steps c) = Inr t
          \<and> rl_loop c [0..<nat (rl_n_steps c) - 1]
               \<lparr>rl_t = t, rl_i_L = replicate (nat (rl_n_steps c)) 0,
                rl_v_R = replicate (nat (rl_n_steps c)) 0,
                rl_v_L = replicate (nat (rl_n_steps c)) 0, rl_x = 0\<rparr> = Inr s)"
  unfolding rl_script_def Let_def err_bind_eq_Inr py_div_eq_Inr np_zeros_eq_Inr rl_n_steps_def
    py_range_def
  by (auto simp: nat_pred dest: linspace_eq_Inr)

lemma rl_inv_init:
  "length t = N \<Longrightarrow>
   rl_inv c N 0 \<lparr>rl_t = t, rl_i_L = replicate N 0, rl_v_R = replicate N 0,
                 rl_v_L = replicate N 0, rl_x = 0\<rparr>"
  by (simp add: rl_inv_def)

lemma rl_script_inv:
  assumes "rl_script c = Inr s"
  shows "rl_dt c \<noteq> 0" and "0 \<le> rl_n_steps c"
    and "linspace 0 (rl_t_max c) (rl_n_steps c) = Inr (rl_t s)"
    and "rl_inv c (nat (rl_n_steps c)) (nat (rl_n_steps c) - 1) s"
proof -
  from assms obtain t where dt: "rl_dt c \<noteq> 0" and n: "0 \<le> rl_n_steps c"
    and t: "linspace 0 (rl_t_max c) (rl_n_steps c) = Inr t"
    and l: "rl_loop c [0..<nat (rl_n_steps c) - 1]
               \<lparr>rl_t = t, rl_i_L = replicate (nat (rl_n_steps c)) 0,
                rl_v_R = replicate (nat (rl_n_steps c)) 0,
                rl_v_L = replicate (nat (rl_n_steps c)) 0, rl_x = 0\<rparr> = Inr s"
    unfolding rl_script_unfold by blast
  from t have len: "length t = nat (rl_n_steps c)" by (simp add: linspace_eq_Inr)
  from rl_loop_inv[OF rl_inv_init[OF len] l]
  have "rl_inv c (nat (rl_n_steps c)) (nat (rl_n_steps c) - 1) s" "rl_t s = t" by simp_all
  with dt n t show "rl_dt c \<noteq> 0" "0 \<le> rl_n_steps c"
    "linspace 0 (rl_t_max c) (rl_n_steps c) = Inr (rl_t s)"
    "rl_inv c (nat (rl_n_steps c)) (nat (rl_n_steps c) - 1) s" by simp_all
qed

lemma rl_loop_ok:
  assumes inv: "rl_inv c N 0 s0" and L: "rl_L c \<noteq> 0"
    and le: "\<forall>\<tau>. lado_esquerdo (rl_dt c) (- rl_resistencia c \<tau> / rl_L c) \<noteq> 0"
  shows "m < N \<Longrightarrow> \<exists>s. rl_loop c [0..<m] s0 = Inr s"
proof (induction m)
  case 0
  then show ?case by simp
next
  case (Suc m)
  then obtain s1 where s1: "rl_loop c [0..<m] s0 = Inr s1" by auto
  from rl_loop_inv[OF inv s1] have i1: "rl_inv c N m s1" by simp
  with Suc.prems L le have "\<exists>s. rl_body c m s1 = Inr s"
    unfolding rl_body_eq_Inr by (simp add: rl_inv_def)
  with s1 show ?case by (auto simp: rl_loop_append)
qed

lemma rl_script_ok:
  assumes dt: "rl_dt c \<noteq> 0" and n: "0 \<le> rl_n_steps c" and L: "rl_L c \<noteq> 0"
    and le: "\<forall>\<tau>. lado_esquerdo (rl_dt c) (- rl_resistencia c \<tau> / rl_L c) \<noteq> 0"
  shows "\<exists>s. rl_script c = Inr s"
proof -
  from linspace_ok[OF n] obtain t where t: "linspace 0 (rl_t_max c) (rl_n_steps c) = Inr t"
    by blast
  then have len: "length t = nat (rl_n_steps c)" by (simp add: linspace_eq_Inr)
  have "\<exists>s. rl_loop c [0..<nat (rl_n_steps c) - 1]
               \<lparr>rl_t = t, rl_i_L = replicate (nat (rl_n_steps c)) 0,
                rl_v_R = replicate (nat (rl_n_steps c)) 0,
                rl_v_L = replicate (nat (rl_n_steps c)) 0, rl_x = 0\<rparr> = Inr s"
  proof (cases "nat (rl_n_steps c) = 0")
    case True
    then show ?thesis by simp
  next
    case False
    then have "nat (rl_n_steps c) - 1 < nat (rl_n_steps c)" by simp
    from rl_loop_ok[OF rl_inv_init[OF len] L le this] show ?thesis .
  qed
  with dt n t show ?thesis unfolding rl_script_unfold by blast
qed

lemma lado_esquerdo_pos:
  "0 < dt \<Longrightarrow> 0 < Lv \<Longrightarrow> 0 \<le> R \<Longrightarrow> 1 \<le> lado_esquerdo dt (- R / Lv)"
  by (simp add: lado_esquerdo_def)

lemma A_load_eq_Inr:
  "A_load Lv Cv R = Inr A \<longleftrightarrow>
     Lv \<noteq> 0 \<and> Cv \<noteq> 0 \<and> R * Cv \<noteq> 0 \<and> A = ((0, - 1 / Lv), (1 / Cv, - 1 / (R * Cv)))"
  unfolding A_load_def err_bind_eq_Inr py_div_eq_Inr by auto

lemma linalg_solve_sound:
  assumes "linalg_solve M r = Inr x"
  shows "mat_vec M x = r"
proof -
  obtain a b c d where M: "M = ((a, b), (c, d))" by (metis surj_pair)
  obtain r1 r2 where r: "r = (r1, r2)" by (metis surj_pair)
  define D where "D = a * d - b * c"
  from assms have det: "D \<noteq> 0"
    and x: "x = ((d * r1 - b * r2) / D, (a * r2 - c * r1) / D)"
    by (auto simp: M r D_def Let_def split: if_splits)
  have "a * ((d * r1 - b * r2) / D) + b * ((a * r2 - c * r1) / D)
          = (a * (d * r1 - b * r2) + b * (a * r2 - c * r1)) / D"
    by (simp add: add_divide_distrib)
  also have "a * (d * r1 - b * r2) + b * (a * r2 - c * r1) = r1 * D"
    by (simp add: D_def algebra_simps)
  finally have e1: "a * ((d * r1 - b * r2) / D) + b * ((a * r2 - c * r1) / D) = r1"
    using det by simp
  have "c * ((d * r1 - b * r2) / D) + d * ((a * r2 - c * r1) / D)
          = (c * (d * r1 - b * r2) + d * (a * r2 - c * r1)) / D"
    by (simp add: add_divide_distrib)
  also have "c * (d * r1 - b * r2) + d * (a * r2 - c * r1) = r2 * D"
    by (simp add: D_def algebra_simps)
  finally have e2: "c * ((d * r1 - b * r2) / D) + d * ((a * r2 - c * r1) / D) = r2"
    using det by simp
  show ?thesis
    unfolding M r x using e1 e2 by simp
qed

lemma rlc_body_eq_Inr:
  "rlc_body c u_vec n s = Inr s' \<longleftrightarrow>
     n + 1 < length (rlc_t s) \<and> n + 1 < length (rlc_i_L s) \<and> n + 1 < length (rlc_v_C s)
     \<and> n + 1 < length (rlc_i_load s)
     \<and> (\<exists>x_next. rlc_x_next c u_vec n s = Inr x_next
          \<and> s' = \<lparr>rlc_t = rlc_t s,
                  rlc_i_L = (rlc_i_L s)[n + 1 := fst x_next],
                  rlc_v_C = (rlc_v_C s)[n + 1 := snd x_next],
                  rlc_i_load = (rlc_i_load s)[n + 1 :=
                     np_divide (snd x_next) (rlc_load_resistance c (rlc_t s ! (n + 1)))],
                  rlc_x = x_next\<rparr>)"
  unfolding rlc_body_def rlc_x_next_def rlc_advance_def Let_def err_bind_eq_Inr np_get_eq_Inr
    np_set_eq_Inr
  by auto

lemma rlc_loop_append:
  "rlc_loop c u (ns @ ms) s = err_bind (rlc_loop c u ns s) (rlc_loop c u ms)"
  by (induction ns arbitrary: s) (auto simp: err_bind_def split: sum.splits)

lemma rlc_inv_step:
  assumes inv: "rlc_inv c u N m s" and body: "rlc_body c u m s = Inr s'"
  shows "rlc_inv c u N (Suc m) s' \<and> rlc_t s' = rlc_t s"
proof -
  from body obtain x_next where b: "m + 1 < length (rlc_t s)" "m + 1 < length (rlc_i_L s)"
      "m + 1 < length (rlc_v_C s)" "m + 1 < length (rlc_i_load s)"
    and xn: "rlc_x_next c u m s = Inr x_next"
    and s': "s' = \<lparr>rlc_t = rlc_t s,
                  rlc_i_L = (rlc_i_L s)[m + 1 := fst x_next],
                  rlc_v_C = (rlc_v_C s)[m + 1 := snd x_next],
                  rlc_i_load = (rlc_i_load s)[m + 1 :=
                     np_divide (snd x_next) (rlc_load_resistance c (rlc_t s ! (m + 1)))],
                  rlc_x = x_next\<rparr>"
    unfolding rlc_body_eq_Inr by blast
  from inv b have xm: "rlc_x s = (rlc_i_L s ! m, rlc_v_C s ! m)" by (simp add: rlc_inv_def)
  from xn have sol: "rlc_advance c u (rlc_load_resistance c (rlc_t s ! m))
                  (rlc_i_L s ! m, rlc_v_C s ! m) = Inr (fst x_next, snd x_next)"
    unfolding rlc_x_next_def xm by simp
  show ?thesis
    using inv b sol unfolding rlc_inv_def s'
    by (auto simp: nth_list_update less_Suc_eq le_Suc_eq)
qed

lemma rlc_loop_inv:
  "rlc_inv c u N 0 s0 \<Longrightarrow> rlc_loop c u [0..<m] s0 = Inr s
     \<Longrightarrow> rlc_inv c u N m s \<and> rlc_t s = rlc_t s0"
proof (induction m arbitrary: s)
  case 0
  then show ?case by simp
next
  case (Suc m)
  from Suc.prems(2) obtain s1 where s1: "rlc_loop c u [0..<m] s0 = Inr s1"
    and b: "rlc_body c u m s1 = Inr s"
    by (auto simp: rlc_loop_append err_bind_eq_Inr)
  from Suc.IH[OF Suc.prems(1) s1] have "rlc_inv c u N m s1" "rlc_t s1 = rlc_t s0" by simp_all
  with rlc_inv_step[OF _ b] show ?case by simp
qed

lemma rlc_script_unfold:
  "rlc_script c = Inr s \<longleftrightarrow>
     rlc_dt c \<noteq> 0 \<and> 0 \<le> rlc_n_steps c \<and> rlc_L c \<noteq> 0
     \<and> (\<exists>t. linspace 0 (rlc_t_max c) (rlc_n_steps c) = Inr t
          \<and> rlc_loop c (rlc_V_source c / rlc_L c, 0) [0..<nat (rlc_n_steps c) - 1]
               \<lparr>rlc_t = t, rlc_i_L = replicate (nat (rlc_n_steps c)) 0,
                rlc_v_C = replicate (nat (rlc_n_steps c)) 0,
                rlc_i_load = replicate (nat (rlc_n_steps c)) (Finite 0), rlc_x = (0, 0)\<rparr> = Inr s)"
  unfolding rlc_script_def Let_def err_bind_eq_Inr py_div_eq_Inr np_zeros_eq_Inr rlc_n_steps_def
    py_range_def
  by (auto simp: nat_pred dest: linspace_eq_Inr)

lemma rlc_inv_init:
  "length t = N \<Longrightarrow>
   rlc_inv c u N 0 \<lparr>rlc_t = t, rlc_i_L = replicate N 0, rlc_v_C = replicate N 0,
                 rlc_i_load = replicate N (Finite 0), rlc_x = (0, 0)\<rparr>"
  by (simp add: rlc_inv_def)

lemma rlc_script_inv:
  assumes "rlc_script c = Inr s"
  shows "rlc_dt c \<noteq> 0" and "0 \<le> rlc_n_steps c" and "rlc_L c \<noteq> 0"
    and "linspace 0 (rlc_t_max c) (rlc_n_steps c) = Inr (rlc_t s)"
    and "rlc_inv c (rlc_V_source c / rlc_L c, 0) (nat (rlc_n_steps c)) (nat (rlc_n_steps c) - 1) s"
proof -
  from assms obtain t where dt: "rlc_dt c \<noteq> 0" and n: "0 \<le> rlc_n_steps c" and L: "rlc_L c \<noteq> 0"
    and t: "linspace 0 (rlc_t_max c) (rlc_n_steps c) = Inr t"
    and l: "rlc_loop c (rlc_V_source c / rlc_L c, 0) [0..<nat (rlc_n_steps c) - 1]
               \<lparr>rlc_t = t, rlc_i_L = replicate (nat (rlc_n_steps c)) 0,
                rlc_v_C = replicate (nat (rlc_n_steps c)) 0,
                rlc_i_load = replicate (nat (rlc_n_steps c)) (Finite 0), rlc_x = (0, 0)\<rparr> = Inr s"
    unfolding rlc_script_unfold by blast
  from t have len: "length t = nat (rlc_n_steps c)" by (simp add: linspace_eq_Inr)
  from rlc_loop_inv[OF rlc_inv_init[OF len] l]
  have "rlc_inv c (rlc_V_source c / rlc_L c, 0) (nat (rlc_n_steps c)) (nat (rlc_n_steps c) - 1) s"
    "rlc_t s = t" by simp_all
  with dt n L t show "rlc_dt c \<noteq> 0" "0 \<le> rlc_n_steps c" "rlc_L c \<noteq> 0"
    "linspace 0 (rlc_t_max c) (rlc_n_steps c) = Inr (rlc_t s)"
    "rlc_inv c (rlc_V_source c / rlc_L c, 0) (nat (rlc_n_steps c)) (nat (rlc_n_steps c) - 1) s"
    by simp_all
qed

lemma rl_script_length:
  assumes "rl_script c = Inr s"
  shows "length (rl_t s) = nat (rl_n_steps c)" "length (rl_i_L s) = nat (rl_n_steps c)"
    "length (rl_v_R s) = nat (rl_n_steps c)" "length (rl_v_L s) = nat (rl_n_steps c)"
  using rl_script_inv(4)[OF assms] by (simp_all add: rl_inv_def)

lemma rl_script_first:
  assumes "rl_script c = Inr s" and "0 < nat (rl_n_steps c)"
  shows "rl_i_L s ! 0 = 0" "rl_v_R s ! 0 = 0" "rl_v_L s ! 0 = 0"
  using rl_script_inv(4)[OF assms(1)] assms(2) by (simp_all add: rl_inv_def)

lemma rl_script_recurrence:
  assumes "rl_script c = Inr s" and "n + 1 < nat (rl_n_steps c)"
  shows "rl_L c \<noteq> 0"
    and "lado_esquerdo (rl_dt c) (- rl_resistencia c (rl_t s ! n) / rl_L c) \<noteq> 0"
    and "rl_i_L s ! (n + 1) =
           lado_direito (rl_dt c) (- rl_resistencia c (rl_t s ! n) / rl_L c) (1 / rl_L c)
             (rl_i_L s ! n) (rl_V_fonte c)
           / lado_esquerdo (rl_dt c) (- rl_resistencia c (rl_t s ! n) / rl_L c)"
proof -
  from assms(2) have "n < nat (rl_n_steps c) - 1" by simp
  with rl_script_inv(4)[OF assms(1)] show "rl_L c \<noteq> 0"
    "lado_esquerdo (rl_dt c) (- rl_resistencia c (rl_t s ! n) / rl_L c) \<noteq> 0"
    "rl_i_L s ! (n + 1) =
           lado_direito (rl_dt c) (- rl_resistencia c (rl_t s ! n) / rl_L c) (1 / rl_L c)
             (rl_i_L s ! n) (rl_V_fonte c)
           / lado_esquerdo (rl_dt c) (- rl_resistencia c (rl_t s ! n) / rl_L c)"
    unfolding rl_inv_def by blast+
qed

lemma rl_script_outputs:
  assumes "rl_script c = Inr s" and "1 \<le> n" and "n < nat (rl_n_steps c)"
  shows "rl_v_R s ! n = rl_resistencia c (rl_t s ! n) * rl_i_L s ! n"
    and "rl_v_L s ! n = rl_V_fonte c - rl_v_R s ! n"
proof -
  from assms(2,3) have "1 \<le> n \<and> n \<le> nat (rl_n_steps c) - 1" by simp
  with rl_script_inv(4)[OF assms(1)]
  show "rl_v_R s ! n = rl_resistencia c (rl_t s ! n) * rl_i_L s ! n"
    "rl_v_L s ! n = rl_V_fonte c - rl_v_R s ! n"
    unfolding rl_inv_def by blast+
qed

lemma rlc_script_length:
  assumes "rlc_script c = Inr s"
  shows "length (rlc_t s) = nat (rlc_n_steps c)" "length (rlc_i_L s) = nat (rlc_n_steps c)"
    "length (rlc_v_C s) = nat (rlc_n_steps c)" "length (rlc_i_load s) = nat (rlc_n_steps c)"
  using rlc_script_inv(5)[OF assms] by (simp_all add: rlc_inv_def)

lemma rlc_script_first:
  assumes "rlc_script c = Inr s" and "0 < nat (rlc_n_steps c)"
  shows "rlc_i_L s ! 0 = 0" "rlc_v_C s ! 0 = 0" "rlc_i_load s ! 0 = Finite 0"
  using rlc_script_inv(5)[OF assms(1)] assms(2) by (simp_all add: rlc_inv_def)

lemma rlc_script_recurrence:
  assumes "rlc_script c = Inr s" and "n + 1 < nat (rlc_n_steps c)"
  shows "rlc_advance c (rlc_V_source c / rlc_L c, 0) (rlc_load_resistance c (rlc_t s ! n))
           (rlc_i_L s ! n, rlc_v_C s ! n)
         = Inr (rlc_i_L s ! (n + 1), rlc_v_C s ! (n + 1))"
proof -
  from assms(2) have "n < nat (rlc_n_steps c) - 1" by simp
  with rlc_script_inv(5)[OF assms(1)] show ?thesis
    unfolding rlc_inv_def by blast
qed

lemma rlc_script_outputs:
  assumes "rlc_script c = Inr s" and "1 \<le> n" and "n < nat (rlc_n_steps c)"
  shows "rlc_i_load s ! n = np_divide (rlc_v_C s ! n) (rlc_load_resistance c (rlc_t s ! n))"
proof -
  from assms(2,3) have "1 \<le> n \<and> n \<le> nat (rlc_n_steps c) - 1" by simp
  with rlc_script_inv(5)[OF assms(1)] show ?thesis
    unfolding rlc_inv_def by blast
qed

lemma rlc_advance_sound:
  assumes "rlc_advance c u R x = Inr x'"
  shows "\<exists>A. A_load (rlc_L c) (rlc_C c) R = Inr A
           \<and> mat_vec (left_side (rlc_dt c) A) x' = right_side_vector (rlc_dt c) A x u"
  using assms unfolding rlc_advance_def err_bind_eq_Inr
  by (auto dest: linalg_solve_sound)

lemmas run_simps = Let_def py_div_def py_int_def linspace_def np_zeros_def py_range_def
  np_get_def np_set_def lado_esquerdo_def lado_direito_def

lemma rl_two_point_run:
  "rl_script rl_two_point =
     Inr \<lparr>rl_t = [0, 0.1], rl_i_L = [0, 220 / 7], rl_v_R = [0, 220 / 7],
          rl_v_L = [0, 1320 / 7], rl_x = 220 / 7\<rparr>"
  by (simp add: rl_script_def rl_two_point_def rl_body_def run_simps pegar_resistencia_def
      eval_nat_numeral upt_rec)

lemma rlc_two_point_run:
  "rlc_script rlc_two_point =
     Inr \<lparr>rlc_t = [0, 2], rlc_i_L = [0, 101 / 126], rlc_v_C = [0, 25 / 63],
          rlc_i_load = [Finite 0, Finite (1 / 63)], rlc_x = (101 / 126, 25 / 63)\<rparr>"
  by (simp add: rlc_script_def rlc_two_point_def rlc_body_def run_simps A_load_def
      left_side_def right_side_vector_def right_side_matrix_def eye2_def np_divide_def
      load_resistance_def eval_nat_numeral upt_rec)

text \<open>
  C2. Both schedules are piecewise constant, and the breakpoint belongs to the later
  interval: the value before the event is returned exactly for times below the threshold
  (0.05 s in the RL script, 0.005 s in the RLC script), the value after the event at the
  threshold itself and at every later time.
\<close>

theorem schedule_boundary:
  "0 \<le> t \<Longrightarrow>
     (t < 0.05 \<longleftrightarrow> pegar_resistencia t = 10) \<and> (0.05 \<le> t \<longleftrightarrow> pegar_resistencia t = 1)
   \<and> (t < 0.005 \<longleftrightarrow> load_resistance 50 t = 50)
   \<and> (0.005 \<le> t \<longleftrightarrow> load_resistance 50 t = 25)
   \<and> load_resistance R0 t = (if t < 0.005 then R0 else R0 / 2)"
  by (simp add: pegar_resistencia_def load_resistance_def)

text \<open>The schedules at their thresholds and at time zero.\<close>

theorem schedule_boundary_witness:
  "pegar_resistencia 0.05 = 1 \<and> load_resistance 50 0.005 = 25 \<and> pegar_resistencia 0 = 10
   \<and> load_resistance 50 0 = 50"
  using schedule_boundary [of "0.05" 0] schedule_boundary [of "0.005" 0]
    schedule_boundary [of 0 0]
  by simp

text \<open>
  C10. In a completed run of the RL script the stored voltages add up to the source voltage
  at every index from 1 on, while at index 0 both stay at the zero they were allocated
  with, so that their sum there is 0 and not the source voltage.
\<close>

theorem rl_kvl_after_first:
  assumes "rl_script c = Inr s"
  shows "length (rl_v_R s) = nat (py_int (rl_t_max c / rl_dt c))
     \<and> length (rl_v_L s) = length (rl_v_R s)
     \<and> (\<forall>n. 1 \<le> n \<and> n < length (rl_v_R s) \<longrightarrow> rl_v_R s ! n + rl_v_L s ! n = rl_V_fonte c)
     \<and> (0 < length (rl_v_R s) \<longrightarrow>
          rl_v_R s ! 0 = 0 \<and> rl_v_L s ! 0 = 0 \<and> rl_v_R s ! 0 + rl_v_L s ! 0 = 0)"
  using rl_script_length[OF assms] rl_script_first[OF assms] rl_script_outputs[OF assms]
  by (simp add: rl_n_steps_def)

text \<open>A run with two grid points: 220/7 + 1320/7 is the source voltage, index 0 sums to 0.\<close>

theorem rl_kvl_after_first_witness:
  "rl_script rl_two_point =
     Inr \<lparr>rl_t = [0, 0.1], rl_i_L = [0, 220 / 7], rl_v_R = [0, 220 / 7],
          rl_v_L = [0, 1320 / 7], rl_x = 220 / 7\<rparr>
   \<and> (220 / 7 :: real) + 1320 / 7 = rl_V_fonte rl_two_point
   \<and> [0, 220 / 7 :: real] ! 0 + [0, 1320 / 7] ! 0 = 0"
  using rl_kvl_after_first [OF rl_two_point_run] rl_two_point_run
  by (simp add: rl_two_point_def)

text \<open>
  C3. The outputs stored at an index are computed from the state stored at that index and
  the schedule at that index's time: in the RLC script the load current is the capacitor
  voltage over the load resistance at every index (at index 0 both sides are zero as long
  as the resistance there is not zero, which the script's own schedule guarantees); in the
  RL script the resistor voltage is resistance times current, and the inductor voltage the
  rest of the source voltage, at every index from 1 on.
\<close>

theorem outputs_use_post_step_parameters:
  "(rlc_script c = Inr s \<longrightarrow>
      (\<forall>i. i < length (rlc_i_load s) \<and> (1 \<le> i \<or> rlc_load_resistance c (rlc_t s ! i) \<noteq> 0) \<longrightarrow>
         rlc_i_load s ! i = np_divide (rlc_v_C s ! i) (rlc_load_resistance c (rlc_t s ! i))))
   \<and> (rl_script c' = Inr s' \<longrightarrow>
      (\<forall>i. 1 \<le> i \<and> i < length (rl_v_R s') \<longrightarrow>
         rl_v_R s' ! i = rl_resistencia c' (rl_t s' ! i) * rl_i_L s' ! i
         \<and> rl_v_L s' ! i = rl_V_fonte c' - rl_v_R s' ! i))"
proof (intro conjI impI allI)
  fix i
  assume run: "rlc_script c = Inr s"
    and i: "i < length (rlc_i_load s) \<and> (1 \<le> i \<or> rlc_load_resistance c (rlc_t s ! i) \<noteq> 0)"
  show "rlc_i_load s ! i = np_divide (rlc_v_C s ! i) (rlc_load_resistance c (rlc_t s ! i))"
  proof (cases "1 \<le> i")
    case True
    with i rlc_script_outputs[OF run, of i] rlc_script_length[OF run] show ?thesis by simp
  next
    case False
    then have i0: "i = 0" by simp
    with i rlc_script_first[OF run] rlc_script_length[OF run] show ?thesis
      by (simp add: np_divide_def)
  qed
next
  fix i
  assume run: "rl_script c' = Inr s'" and i: "1 \<le> i \<and> i < length (rl_v_R s')"
  with rl_script_outputs[OF run, of i] rl_script_length[OF run]
  show "rl_v_R s' ! i = rl_resistencia c' (rl_t s' ! i) * rl_i_L s' ! i"
    "rl_v_L s' ! i = rl_V_fonte c' - rl_v_R s' ! i" by simp_all
qed

text \<open>Both scripts on a grid of two points, indices 0 and 1.\<close>

theorem outputs_use_post_step_parameters_witness:
  "rlc_script rlc_two_point =
     Inr \<lparr>rlc_t = [0, 2], rlc_i_L = [0, 101 / 126], rlc_v_C = [0, 25 / 63],
          rlc_i_load = [Finite 0, Finite (1 / 63)], rlc_x = (101 / 126, 25 / 63)\<rparr>
   \<and> Finite (1 / 63) = np_divide (25 / 63) (load_resistance 50 2)
   \<and> Finite 0 = np_divide 0 (load_resistance 50 0)
   \<and> rl_script rl_two_point =
     Inr \<lparr>rl_t = [0, 0.1], rl_i_L = [0, 220 / 7], rl_v_R = [0, 220 / 7],
          rl_v_L = [0, 1320 / 7], rl_x = 220 / 7\<rparr>
   \<and> (220 / 7 :: real) = pegar_resistencia 0.1 * (220 / 7)
   \<and> (1320 / 7 :: real) = 220 - 220 / 7"
proof -
  note inst = outputs_use_post_step_parameters [of rlc_two_point _ rl_two_point]
  have a: "Finite (1 / 63) = np_divide (25 / 63) (load_resistance 50 2)"
    using inst [THEN conjunct1, rule_format, OF rlc_two_point_run, of 1]
    by (simp add: rlc_two_point_def)
  have "load_resistance 50 0 \<noteq> 0" by (simp add: load_resistance_def)
  then have b: "Finite 0 = np_divide 0 (load_resistance 50 0)"
    using inst [THEN conjunct1, rule_format, OF rlc_two_point_run, of 0]
    by (simp add: rlc_two_point_def)
  have c: "(220 / 7 :: real) = pegar_resistencia 0.1 * (220 / 7)
      \<and> (1320 / 7 :: real) = 220 - 220 / 7"
    using inst [THEN conjunct2, rule_format, OF rl_two_point_run, of 1]
    by (simp add: rl_two_point_def)
  from a b c rlc_two_point_run rl_two_point_run show ?thesis by simp
qed

lemma rl_script_neg: "rl_dt c \<noteq> 0 \<Longrightarrow> rl_n_steps c < 0 \<Longrightarrow> rl_script c = Inl ValueError"
  by (simp add: rl_script_def py_div_def linspace_def rl_n_steps_def Let_def)

lemma rl_script_dt0: "rl_dt c = 0 \<Longrightarrow> rl_script c = Inl ZeroDivisionError"
  by (simp add: rl_script_def py_div_def)

lemma pegar_resistencia_nonneg: "0 \<le> pegar_resistencia \<tau>"
  by (simp add: pegar_resistencia_def)

lemma rl_default_n_steps: "rl_n_steps rl_default = 10000"
  by (simp add: rl_n_steps_def rl_default_def py_int_def)

lemma rl_default_ok: "\<exists>s. rl_script rl_default = Inr s"
proof (rule rl_script_ok)
  show "rl_dt rl_default \<noteq> 0" by (simp add: rl_default_def)
  show "0 \<le> rl_n_steps rl_default" by (simp add: rl_default_n_steps)
  show "rl_L rl_default \<noteq> 0" by (simp add: rl_default_def)
  show "\<forall>\<tau>. lado_esquerdo (rl_dt rl_default)
            (- rl_resistencia rl_default \<tau> / rl_L rl_default) \<noteq> 0"
  proof
    fix \<tau>
    have "1 \<le> lado_esquerdo (1 / 100000) (- pegar_resistencia \<tau> / (1 / 10))"
      by (rule lado_esquerdo_pos) (simp_all add: pegar_resistencia_nonneg)
    then show "lado_esquerdo (rl_dt rl_default)
            (- rl_resistencia rl_default \<tau> / rl_L rl_default) \<noteq> 0"
      by (simp add: rl_default_def)
  qed
qed

text \<open>
  C8. With a positive time step, a positive inductance and a resistance that is not
  negative, the left-hand coefficient of the RL step is not zero, so the division that
  gives the next current returns a value; a run of the script with such constants never
  raises \<open>ZeroDivisionError\<close>.
\<close>

theorem rl_left_coefficient_nonzero:
  assumes "0 < dt" and "0 < Lv" and "0 \<le> R"
  shows "lado_esquerdo dt (- R / Lv) \<noteq> 0
     \<and> py_div (lado_direito dt (- R / Lv) (1 / Lv) x u) (lado_esquerdo dt (- R / Lv))
         = Inr (lado_direito dt (- R / Lv) (1 / Lv) x u / lado_esquerdo dt (- R / Lv))
     \<and> (rl_dt c = dt \<and> rl_L c = Lv \<and> (\<forall>\<tau>. 0 \<le> rl_resistencia c \<tau>)
          \<longrightarrow> rl_script c \<noteq> Inl ZeroDivisionError)"
proof -
  from lado_esquerdo_pos[OF assms] have nz: "lado_esquerdo dt (- R / Lv) \<noteq> 0" by simp
  have "rl_script c \<noteq> Inl ZeroDivisionError"
    if c: "rl_dt c = dt \<and> rl_L c = Lv \<and> (\<forall>\<tau>. 0 \<le> rl_resistencia c \<tau>)"
  proof (cases "0 \<le> rl_n_steps c")
    case True
    have "\<forall>\<tau>. lado_esquerdo (rl_dt c) (- rl_resistencia c \<tau> / rl_L c) \<noteq> 0"
    proof
      fix \<tau>
      from c assms have "1 \<le> lado_esquerdo (rl_dt c) (- rl_resistencia c \<tau> / rl_L c)"
        by (intro lado_esquerdo_pos) simp_all
      then show "lado_esquerdo (rl_dt c) (- rl_resistencia c \<tau> / rl_L c) \<noteq> 0" by simp
    qed
    with rl_script_ok[of c] True c assms obtain s where "rl_script c = Inr s" by auto
    then show ?thesis by simp
  next
    case False
    with rl_script_neg[of c] c assms show ?thesis by simp
  qed
  with nz show ?thesis by (simp add: py_div_def)
qed

text \<open>The script's own constants: dt = 1e-5, L = 0.1, R = 10.\<close>

theorem rl_left_coefficient_nonzero_witness:
  "lado_esquerdo (1 / 100000) (- 10 / (1 / 10)) \<noteq> 0
   \<and> py_div (lado_direito (1 / 100000) (- 10 / (1 / 10)) (1 / (1 / 10)) 0 220)
        (lado_esquerdo (1 / 100000) (- 10 / (1 / 10)))
      = Inr (lado_direito (1 / 100000) (- 10 / (1 / 10)) (1 / (1 / 10)) 0 220
             / lado_esquerdo (1 / 100000) (- 10 / (1 / 10)))
   \<and> rl_script rl_default \<noteq> Inl ZeroDivisionError"
proof -
  have c: "rl_dt rl_default = 1 / 100000 \<and> rl_L rl_default = 1 / 10
      \<and> (\<forall>\<tau>. 0 \<le> rl_resistencia rl_default \<tau>)"
    by (simp add: rl_default_def pegar_resistencia_nonneg)
  have "(0::real) < 1 / 100000" "(0::real) < 1 / 10" "(0::real) \<le> 10" by simp_all
  from rl_left_coefficient_nonzero [OF this, of 0 220 rl_default] c show ?thesis by blast
qed

text \<open>
  C1, as the scripts have it. In every step of a completed run, both sides of the
  trapezoidal equation are built from the system matrix of the parameters valid at the
  start of the step: with A taken at \<open>t[n]\<close>,
  \<open>(I - (dt/2) A) x[n+1] = (I + (dt/2) A) x[n] + dt B u\<close>, in the RL script (scalars) and in
  the RLC script (matrices of two rows, \<open>B u = [V_source / L, 0]\<close>).
\<close>

theorem trapezoid_uses_start_of_step_matrix:
  "(rl_script c = Inr s \<longrightarrow>
      (\<forall>n. n + 1 < length (rl_i_L s) \<longrightarrow>
         lado_esquerdo (rl_dt c) (- rl_resistencia c (rl_t s ! n) / rl_L c) * rl_i_L s ! (n + 1)
         = lado_direito (rl_dt c) (- rl_resistencia c (rl_t s ! n) / rl_L c) (1 / rl_L c)
             (rl_i_L s ! n) (rl_V_fonte c)))
   \<and> (rlc_script c' = Inr s' \<longrightarrow>
      (\<forall>n. n + 1 < length (rlc_i_L s') \<longrightarrow>
         (\<exists>A. A_load (rlc_L c') (rlc_C c') (rlc_load_resistance c' (rlc_t s' ! n)) = Inr A
            \<and> mat_vec (left_side (rlc_dt c') A) (rlc_i_L s' ! (n + 1), rlc_v_C s' ! (n + 1))
              = right_side_vector (rlc_dt c') A (rlc_i_L s' ! n, rlc_v_C s' ! n)
                  (rlc_V_source c' / rlc_L c', 0))))"
proof (intro conjI impI allI)
  fix n
  assume run: "rl_script c = Inr s" and n: "n + 1 < length (rl_i_L s)"
  from n rl_script_length[OF run] have n': "n + 1 < nat (rl_n_steps c)" by simp
  from rl_script_recurrence(2,3)[OF run n']
  show "lado_esquerdo (rl_dt c) (- rl_resistencia c (rl_t s ! n) / rl_L c) * rl_i_L s ! (n + 1)
         = lado_direito (rl_dt c) (- rl_resistencia c (rl_t s ! n) / rl_L c) (1 / rl_L c)
             (rl_i_L s ! n) (rl_V_fonte c)"
    by simp
next
  fix n
  assume run: "rlc_script c' = Inr s'" and n: "n + 1 < length (rlc_i_L s')"
  from n rlc_script_length[OF run] have n': "n + 1 < nat (rlc_n_steps c')" by simp
  from rlc_advance_sound[OF rlc_script_recurrence[OF run n']]
  show "\<exists>A. A_load (rlc_L c') (rlc_C c') (rlc_load_resistance c' (rlc_t s' ! n)) = Inr A
            \<and> mat_vec (left_side (rlc_dt c') A) (rlc_i_L s' ! (n + 1), rlc_v_C s' ! (n + 1))
              = right_side_vector (rlc_dt c') A (rlc_i_L s' ! n, rlc_v_C s' ! n)
                  (rlc_V_source c' / rlc_L c', 0)" .
qed

text \<open>The first step of both scripts on a grid of two points.\<close>

theorem trapezoid_uses_start_of_step_matrix_witness:
  "rl_script rl_two_point =
     Inr \<lparr>rl_t = [0, 0.1], rl_i_L = [0, 220 / 7], rl_v_R = [0, 220 / 7],
          rl_v_L = [0, 1320 / 7], rl_x = 220 / 7\<rparr>
   \<and> lado_esquerdo 0.05 (- pegar_resistencia 0 / 0.1) * (220 / 7)
       = lado_direito 0.05 (- pegar_resistencia 0 / 0.1) (1 / 0.1) 0 220
   \<and> rlc_script rlc_two_point =
     Inr \<lparr>rlc_t = [0, 2], rlc_i_L = [0, 101 / 126], rlc_v_C = [0, 25 / 63],
          rlc_i_load = [Finite 0, Finite (1 / 63)], rlc_x = (101 / 126, 25 / 63)\<rparr>
   \<and> (\<exists>A. A_load 1 1 (load_resistance 50 0) = Inr A
         \<and> mat_vec (left_side 1 A) (101 / 126, 25 / 63) = right_side_vector 1 A (0, 0) (1, 0))"
proof -
  note inst = trapezoid_uses_start_of_step_matrix [of rl_two_point _ rlc_two_point]
  have a: "lado_esquerdo 0.05 (- pegar_resistencia 0 / 0.1) * (220 / 7)
       = lado_direito 0.05 (- pegar_resistencia 0 / 0.1) (1 / 0.1) 0 220"
    using inst [THEN conjunct1, rule_format, OF rl_two_point_run, of 0]
    by (simp add: rl_two_point_def)
  have b: "\<exists>A. A_load 1 1 (load_resistance 50 0) = Inr A
         \<and> mat_vec (left_side 1 A) (101 / 126, 25 / 63) = right_side_vector 1 A (0, 0) (1, 0)"
    using inst [THEN conjunct2, rule_format, OF rlc_two_point_run, of 0]
    by (simp add: rlc_two_point_def)
  from a b rl_two_point_run rlc_two_point_run show ?thesis by simp
qed

text \<open>
  C1 as stated fails: on the grid \<open>[0, 0.1]\<close> the resistance is 10 at the start of the
  step and 1 at its end, the script stores \<open>i_L[1] = 220/7\<close>, and the left-hand operator
  built from the end-of-step resistance gives 1.25 * 220/7, not the right-hand side 110.
\<close>

theorem trapezoid_end_of_step_matrix_counterexample:
  "rl_script rl_two_point =
     Inr \<lparr>rl_t = [0, 0.1], rl_i_L = [0, 220 / 7], rl_v_R = [0, 220 / 7],
          rl_v_L = [0, 1320 / 7], rl_x = 220 / 7\<rparr>
   \<and> lado_esquerdo (rl_dt rl_two_point)
         (- rl_resistencia rl_two_point 0.1 / rl_L rl_two_point) * (220 / 7)
       \<noteq> lado_direito (rl_dt rl_two_point)
           (- rl_resistencia rl_two_point 0 / rl_L rl_two_point) (1 / rl_L rl_two_point)
           0 (rl_V_fonte rl_two_point)"
  using rl_two_point_run
  by (simp add: rl_two_point_def lado_esquerdo_def lado_direito_def pegar_resistencia_def)

lemma rlc_advance_ok:
  assumes "0 < rlc_dt c" and "0 < rlc_L c" and "0 < rlc_C c" and "0 < R"
  shows "\<exists>x'. rlc_advance c u R x = Inr x'"
proof -
  obtain x1 x2 where x: "x = (x1, x2)" by (metis surj_pair)
  obtain u1 u2 where u: "u = (u1, u2)" by (metis surj_pair)
  define h where "h = rlc_dt c / 2"
  have h: "0 < h" using assms(1) by (simp add: h_def)
  have A: "A_load (rlc_L c) (rlc_C c) R
             = Inr ((0, - 1 / rlc_L c), (1 / rlc_C c, - 1 / (R * rlc_C c)))"
    using assms by (simp add: A_load_def py_div_def)
  have p1: "0 < h * (1 / (R * rlc_C c))" using h assms by simp
  have p2: "0 < (h * (1 / rlc_L c)) * (h * (1 / rlc_C c))" using h assms by simp
  have "1 * (1 - h * (- 1 / (R * rlc_C c))) - (0 - h * (- 1 / rlc_L c)) * (0 - h * (1 / rlc_C c))
          = 1 + h * (1 / (R * rlc_C c)) + (h * (1 / rlc_L c)) * (h * (1 / rlc_C c))"
    by (simp add: algebra_simps)
  with p1 p2
  have det: "1 * (1 - h * (- 1 / (R * rlc_C c))) - (0 - h * (- 1 / rlc_L c)) * (0 - h * (1 / rlc_C c))
               \<noteq> 0"
    by linarith
  show ?thesis
    unfolding rlc_advance_def A err_bind_Inr left_side_def eye2_def right_side_vector_def
      right_side_matrix_def x u h_def[symmetric]
    using det by (simp add: Let_def)
qed

lemma rlc_loop_ok:
  assumes inv: "rlc_inv c u N 0 s0"
    and adv: "\<forall>\<tau> x. \<exists>x'. rlc_advance c u (rlc_load_resistance c \<tau>) x = Inr x'"
  shows "m < N \<Longrightarrow> \<exists>s. rlc_loop c u [0..<m] s0 = Inr s"
proof (induction m)
  case 0
  then show ?case by simp
next
  case (Suc m)
  then obtain s1 where s1: "rlc_loop c u [0..<m] s0 = Inr s1" by auto
  from rlc_loop_inv[OF inv s1] have i1: "rlc_inv c u N m s1" by simp
  from adv obtain x' where "rlc_x_next c u m s1 = Inr x'"
    unfolding rlc_x_next_def by blast
  with i1 Suc.prems have "\<exists>s. rlc_body c u m s1 = Inr s"
    unfolding rlc_body_eq_Inr by (simp add: rlc_inv_def)
  with s1 show ?case by (auto simp: rlc_loop_append)
qed

lemma rlc_script_ok:
  assumes dt: "0 < rlc_dt c" and n: "0 \<le> rlc_n_steps c" and L: "0 < rlc_L c"
    and C: "0 < rlc_C c" and R: "\<forall>\<tau>. 0 < rlc_load_resistance c \<tau>"
  shows "\<exists>s. rlc_script c = Inr s"
proof -
  let ?N = "nat (rlc_n_steps c)"
  let ?u = "(rlc_V_source c / rlc_L c, 0)"
  from linspace_ok[OF n] obtain t where t: "linspace 0 (rlc_t_max c) (rlc_n_steps c) = Inr t"
    by blast
  then have len: "length t = ?N" by (simp add: linspace_eq_Inr)
  have adv: "\<forall>\<tau> x. \<exists>x'. rlc_advance c ?u (rlc_load_resistance c \<tau>) x = Inr x'"
    using rlc_advance_ok[OF dt L C] R by blast
  have "\<exists>s. rlc_loop c ?u [0..<?N - 1]
               \<lparr>rlc_t = t, rlc_i_L = replicate ?N 0, rlc_v_C = replicate ?N 0,
                rlc_i_load = replicate ?N (Finite 0), rlc_x = (0, 0)\<rparr> = Inr s"
  proof (cases "?N = 0")
    case True
    then show ?thesis by simp
  next
    case False
    then have "?N - 1 < ?N" by simp
    from rlc_loop_ok[OF rlc_inv_init[OF len] adv this] show ?thesis .
  qed
  with dt n L t show ?thesis unfolding rlc_script_unfold by auto
qed

lemma rlc_default_n_steps: "rlc_n_steps rlc_default = 10000"
  by (simp add: rlc_n_steps_def rlc_default_def py_int_def)

lemma rlc_default_ok: "\<exists>s. rlc_script rlc_default = Inr s"
proof (rule rlc_script_ok)
  show "0 < rlc_dt rlc_default" "0 < rlc_L rlc_default" "0 < rlc_C rlc_default"
    by (simp_all add: rlc_default_def)
  show "0 \<le> rlc_n_steps rlc_default" by (simp add: rlc_default_n_steps)
  show "\<forall>\<tau>. 0 < rlc_load_resistance rlc_default \<tau>"
    by (simp add: rlc_default_def load_resistance_def)
qed

text \<open>
  C4, on the scripts' own constants. The grid of the RL script has 10000 points starting at
  0 and ending at t_max = 0.1, so that consecutive points are 0.1/9999 apart, which is not
  the time step dt = 1e-5 the integration uses; the grid of the RLC script likewise has
  10000 points 0.01/9999 apart against dt = 1e-6.
\<close>

theorem grid_spacing_is_not_dt:
  "(\<exists>s. rl_script rl_default = Inr s \<and> length (rl_t s) = 10000 \<and> rl_t s ! 0 = 0
       \<and> rl_t s ! 9999 = rl_t_max rl_default
       \<and> rl_t s ! 1 - rl_t s ! 0 = 1 / 99990 \<and> rl_dt rl_default = 1 / 100000
       \<and> rl_t s ! 1 - rl_t s ! 0 \<noteq> rl_dt rl_default)
   \<and> (\<exists>s. rlc_script rlc_default = Inr s \<and> length (rlc_t s) = 10000 \<and> rlc_t s ! 0 = 0
       \<and> rlc_t s ! 9999 = rlc_t_max rlc_default
       \<and> rlc_t s ! 1 - rlc_t s ! 0 = 1 / 999900 \<and> rlc_dt rlc_default = 1 / 1000000
       \<and> rlc_t s ! 1 - rlc_t s ! 0 \<noteq> rlc_dt rlc_default)"
proof
  from rl_default_ok obtain s where run: "rl_script rl_default = Inr s" by blast
  from rl_script_inv(3)[OF run]
  have t: "linspace 0 (rl_t_max rl_default) 10000 = Inr (rl_t s)"
    by (simp add: rl_default_n_steps)
  from linspace_eq_Inr[OF t] have len: "length (rl_t s) = 10000"
    and nth: "\<And>i. i < 10000 \<Longrightarrow>
      rl_t s ! i = 0 + real i * ((rl_t_max rl_default - 0) / real_of_int (10000 - 1))"
    by simp_all
  have "rl_t s ! 0 = 0" "rl_t s ! 1 = 1 / 99990" "rl_t s ! 9999 = rl_t_max rl_default"
    using nth[of 0] nth[of 1] nth[of 9999] by (simp_all add: rl_default_def)
  with run len
  show "\<exists>s. rl_script rl_default = Inr s \<and> length (rl_t s) = 10000 \<and> rl_t s ! 0 = 0
       \<and> rl_t s ! 9999 = rl_t_max rl_default
       \<and> rl_t s ! 1 - rl_t s ! 0 = 1 / 99990 \<and> rl_dt rl_default = 1 / 100000
       \<and> rl_t s ! 1 - rl_t s ! 0 \<noteq> rl_dt rl_default"
    by (intro exI[of _ s]) (simp add: rl_default_def)
next
  from rlc_default_ok obtain s where run: "rlc_script rlc_default = Inr s" by blast
  from rlc_script_inv(4)[OF run]
  have t: "linspace 0 (rlc_t_max rlc_default) 10000 = Inr (rlc_t s)"
    by (simp add: rlc_default_n_steps)
  from linspace_eq_Inr[OF t] have len: "length (rlc_t s) = 10000"
    and nth: "\<And>i. i < 10000 \<Longrightarrow>
      rlc_t s ! i = 0 + real i * ((rlc_t_max rlc_default - 0) / real_of_int (10000 - 1))"
    by simp_all
  have "rlc_t s ! 0 = 0" "rlc_t s ! 1 = 1 / 999900" "rlc_t s ! 9999 = rlc_t_max rlc_default"
    using nth[of 0] nth[of 1] nth[of 9999] by (simp_all add: rlc_default_def)
  with run len
  show "\<exists>s. rlc_script rlc_default = Inr s \<and> length (rlc_t s) = 10000 \<and> rlc_t s ! 0 = 0
       \<and> rlc_t s ! 9999 = rlc_t_max rlc_default
       \<and> rlc_t s ! 1 - rlc_t s ! 0 = 1 / 999900 \<and> rlc_dt rlc_default = 1 / 1000000
       \<and> rlc_t s ! 1 - rlc_t s ! 0 \<noteq> rlc_dt rlc_default"
    by (intro exI[of _ s]) (simp add: rlc_default_def)
qed

text \<open>
  C5, on the RL script's own constants. The run completes with \<open>i_L[0] = 0\<close> and
  \<open>v_R[0] = 0\<close>, but \<open>v_L[0]\<close> is the 0 of \<open>np.zeros\<close> and not
  \<open>V_fonte - v_R[0] = 220\<close>: the loop writes the outputs from index 1 on only.
\<close>

theorem rl_first_inductor_voltage_is_zero:
  "\<exists>s. rl_script rl_default = Inr s \<and> rl_i_L s ! 0 = 0
      \<and> rl_v_R s ! 0 = rl_resistencia rl_default (rl_t s ! 0) * rl_i_L s ! 0
      \<and> rl_v_L s ! 0 = 0 \<and> rl_V_fonte rl_default - rl_v_R s ! 0 = 220
      \<and> rl_v_L s ! 0 \<noteq> rl_V_fonte rl_default - rl_v_R s ! 0"
proof -
  from rl_default_ok obtain s where run: "rl_script rl_default = Inr s" by blast
  have "0 < nat (rl_n_steps rl_default)" by (simp add: rl_default_n_steps)
  from rl_script_first[OF run this] run show ?thesis
    by (intro exI[of _ s]) (simp add: rl_default_def)
qed

lemma rlc_script_dt0: "rlc_dt c = 0 \<Longrightarrow> rlc_script c = Inl ZeroDivisionError"
  by (simp add: rlc_script_def py_div_def)

lemma rlc_script_neg:
  "rlc_dt c \<noteq> 0 \<Longrightarrow> rlc_n_steps c < 0 \<Longrightarrow> rlc_script c = Inl ValueError"
  by (simp add: rlc_script_def py_div_def linspace_def rlc_n_steps_def Let_def)

lemma rl_body_L0:
  "rl_L c = 0 \<Longrightarrow> n < length (rl_t s) \<Longrightarrow> rl_body c n s = Inl ZeroDivisionError"
  by (simp add: rl_body_def np_get_def py_div_def Let_def)

lemma rl_script_L0:
  assumes L: "rl_L c = 0" and dt: "rl_dt c \<noteq> 0" and n: "2 \<le> rl_n_steps c"
  shows "rl_script c = Inl ZeroDivisionError"
proof -
  let ?N = "nat (rl_n_steps c)"
  from n have n0: "0 \<le> rl_n_steps c" by simp
  from linspace_ok[OF n0] obtain t where t: "linspace 0 (rl_t_max c) (rl_n_steps c) = Inr t"
    by blast
  then have len: "length t = ?N" by (simp add: linspace_eq_Inr)
  from n have up: "[0..<?N - 1] = 0 # [1..<?N - 1]" by (simp add: upt_conv_Cons)
  have "rl_script c = rl_loop c [0..<?N - 1]
          \<lparr>rl_t = t, rl_i_L = replicate ?N 0, rl_v_R = replicate ?N 0,
           rl_v_L = replicate ?N 0, rl_x = 0\<rparr>"
    using dt n0 t
    by (simp add: rl_script_def py_div_def Let_def np_zeros_def py_range_def nat_pred
        rl_n_steps_def[symmetric])
  also have "\<dots> = Inl ZeroDivisionError"
    unfolding up using n len by (simp add: rl_body_L0[OF L])
  finally show ?thesis .
qed

lemma rlc_script_L0:
  assumes L: "rlc_L c = 0" and dt: "rlc_dt c \<noteq> 0" and n: "0 \<le> rlc_n_steps c"
  shows "rlc_script c = Inl ZeroDivisionError"
proof -
  from linspace_ok[OF n] obtain t where t: "linspace 0 (rlc_t_max c) (rlc_n_steps c) = Inr t"
    by blast
  with L dt n show ?thesis
    by (simp add: rlc_script_def py_div_def Let_def np_zeros_def rlc_n_steps_def[symmetric])
qed

lemma rlc_body_C0:
  "rlc_C c = 0 \<Longrightarrow> rlc_L c \<noteq> 0 \<Longrightarrow> n < length (rlc_t s)
     \<Longrightarrow> rlc_body c u n s = Inl ZeroDivisionError"
  by (simp add: rlc_body_def np_get_def A_load_def py_div_def Let_def)

lemma rlc_script_C0:
  assumes C: "rlc_C c = 0" and L: "rlc_L c \<noteq> 0" and dt: "rlc_dt c \<noteq> 0"
    and n: "2 \<le> rlc_n_steps c"
  shows "rlc_script c = Inl ZeroDivisionError"
proof -
  let ?N = "nat (rlc_n_steps c)"
  from n have n0: "0 \<le> rlc_n_steps c" by simp
  from linspace_ok[OF n0] obtain t where t: "linspace 0 (rlc_t_max c) (rlc_n_steps c) = Inr t"
    by blast
  then have len: "length t = ?N" by (simp add: linspace_eq_Inr)
  from n have up: "[0..<?N - 1] = 0 # [1..<?N - 1]" by (simp add: upt_conv_Cons)
  have "rlc_script c = rlc_loop c (rlc_V_source c / rlc_L c, 0) [0..<?N - 1]
          \<lparr>rlc_t = t, rlc_i_L = replicate ?N 0, rlc_v_C = replicate ?N 0,
           rlc_i_load = replicate ?N (Finite 0), rlc_x = (0, 0)\<rparr>"
    using dt n0 t L
    by (simp add: rlc_script_def py_div_def Let_def np_zeros_def py_range_def nat_pred
        rlc_n_steps_def[symmetric])
  also have "\<dots> = Inl ZeroDivisionError"
    unfolding up using n len by (simp add: rlc_body_C0[OF C L])
  finally show ?thesis .
qed

lemma ceiling_minus_tenth: "\<lceil>- (1 / 10 :: real)\<rceil> = 0"
  by (rule ceiling_unique) simp_all

text \<open>
  C6, as the scripts have it. No constant is validated, and the only exceptions are
  Python's and NumPy's own: \<open>dt = 0\<close> raises \<open>ZeroDivisionError\<close> where \<open>n_steps\<close> is
  computed; a \<open>dt\<close> that makes \<open>int(t_max / dt)\<close> negative raises \<open>ValueError\<close> in
  \<open>np.linspace\<close>; \<open>L = 0\<close> raises \<open>ZeroDivisionError\<close>, in the RLC script where \<open>u_vec\<close>
  is built and in the RL script in the first pass through the loop, which needs
  \<open>n_steps \<ge> 2\<close>; \<open>C = 0\<close> raises \<open>ZeroDivisionError\<close> in the first pass through the loop of
  the RLC script. An exception leaves no output.
\<close>

theorem degenerate_constants_raise_builtin_errors:
  "(rl_dt c = 0 \<longrightarrow> rl_script c = Inl ZeroDivisionError)
   \<and> (rlc_dt c' = 0 \<longrightarrow> rlc_script c' = Inl ZeroDivisionError)
   \<and> (rl_dt c \<noteq> 0 \<and> py_int (rl_t_max c / rl_dt c) < 0 \<longrightarrow> rl_script c = Inl ValueError)
   \<and> (rlc_dt c' \<noteq> 0 \<and> py_int (rlc_t_max c' / rlc_dt c') < 0
        \<longrightarrow> rlc_script c' = Inl ValueError)
   \<and> (rl_L c = 0 \<and> rl_dt c \<noteq> 0 \<and> 2 \<le> py_int (rl_t_max c / rl_dt c)
        \<longrightarrow> rl_script c = Inl ZeroDivisionError)
   \<and> (rlc_L c' = 0 \<and> rlc_dt c' \<noteq> 0 \<and> 0 \<le> py_int (rlc_t_max c' / rlc_dt c')
        \<longrightarrow> rlc_script c' = Inl ZeroDivisionError)
   \<and> (rlc_C c' = 0 \<and> rlc_L c' \<noteq> 0 \<and> rlc_dt c' \<noteq> 0
        \<and> 2 \<le> py_int (rlc_t_max c' / rlc_dt c')
        \<longrightarrow> rlc_script c' = Inl ZeroDivisionError)"
  using rl_script_dt0[of c] rlc_script_dt0[of c'] rl_script_neg[of c] rlc_script_neg[of c']
    rl_script_L0[of c] rlc_script_L0[of c'] rlc_script_C0[of c']
  by (simp add: rl_n_steps_def rlc_n_steps_def)

text \<open>Each of the scripts' constants made degenerate in turn, the others as in the source.\<close>

theorem degenerate_constants_raise_builtin_errors_witness:
  "rl_script (rl_default\<lparr>rl_dt := 0\<rparr>) = Inl ZeroDivisionError
   \<and> rlc_script (rlc_default\<lparr>rlc_dt := 0\<rparr>) = Inl ZeroDivisionError
   \<and> rl_script (rl_default\<lparr>rl_dt := - (1 / 100000)\<rparr>) = Inl ValueError
   \<and> rlc_script (rlc_default\<lparr>rlc_dt := - (1 / 1000000)\<rparr>) = Inl ValueError
   \<and> rl_script (rl_default\<lparr>rl_L := 0\<rparr>) = Inl ZeroDivisionError
   \<and> rlc_script (rlc_default\<lparr>rlc_L := 0\<rparr>) = Inl ZeroDivisionError
   \<and> rlc_script (rlc_default\<lparr>rlc_C := 0\<rparr>) = Inl ZeroDivisionError"
proof -
  note dt0 = degenerate_constants_raise_builtin_errors
      [of "rl_default\<lparr>rl_dt := 0\<rparr>" "rlc_default\<lparr>rlc_dt := 0\<rparr>"]
  note neg = degenerate_constants_raise_builtin_errors
      [of "rl_default\<lparr>rl_dt := - (1 / 100000)\<rparr>" "rlc_default\<lparr>rlc_dt := - (1 / 1000000)\<rparr>"]
  note L0 = degenerate_constants_raise_builtin_errors
      [of "rl_default\<lparr>rl_L := 0\<rparr>" "rlc_default\<lparr>rlc_L := 0\<rparr>"]
  note C0 = degenerate_constants_raise_builtin_errors
      [of "rl_default\<lparr>rl_L := 0\<rparr>" "rlc_default\<lparr>rlc_C := 0\<rparr>"]
  have 1: "rl_script (rl_default\<lparr>rl_dt := 0\<rparr>) = Inl ZeroDivisionError"
    using dt0 by simp
  have 2: "rlc_script (rlc_default\<lparr>rlc_dt := 0\<rparr>) = Inl ZeroDivisionError"
    using dt0 by simp
  have 3: "rl_script (rl_default\<lparr>rl_dt := - (1 / 100000)\<rparr>) = Inl ValueError"
    using neg by (simp add: rl_default_def py_int_def)
  have 4: "rlc_script (rlc_default\<lparr>rlc_dt := - (1 / 1000000)\<rparr>) = Inl ValueError"
    using neg by (simp add: rlc_default_def py_int_def)
  have 5: "rl_script (rl_default\<lparr>rl_L := 0\<rparr>) = Inl ZeroDivisionError"
    using L0 by (simp add: rl_default_def py_int_def)
  have 6: "rlc_script (rlc_default\<lparr>rlc_L := 0\<rparr>) = Inl ZeroDivisionError"
    using L0 by (simp add: rlc_default_def py_int_def)
  have 7: "rlc_script (rlc_default\<lparr>rlc_C := 0\<rparr>) = Inl ZeroDivisionError"
    using C0 by (simp add: rlc_default_def py_int_def)
  from 1 2 3 4 5 6 7 show ?thesis by simp
qed

text \<open>
  C6 as stated fails. With \<open>L = 0\<close> and a grid of one point (\<open>dt = t_max\<close>) the RL script
  raises nothing and returns its series; with \<open>dt = -1\<close> it raises nothing and returns
  empty series; with \<open>L = 0\<close> and the other constants as in the source the exception is
  Python's \<open>ZeroDivisionError\<close>, raised by \<open>A = -R_n / L\<close> inside the loop.
\<close>

theorem degenerate_constants_counterexample:
  "rl_script (rl_default\<lparr>rl_L := 0, rl_dt := 0.1\<rparr>) =
     Inr \<lparr>rl_t = [0], rl_i_L = [0], rl_v_R = [0], rl_v_L = [0], rl_x = 0\<rparr>
   \<and> rl_script (rl_default\<lparr>rl_dt := - 1\<rparr>) =
     Inr \<lparr>rl_t = [], rl_i_L = [], rl_v_R = [], rl_v_L = [], rl_x = 0\<rparr>
   \<and> rl_script (rl_default\<lparr>rl_L := 0\<rparr>) = Inl ZeroDivisionError"
proof -
  have a: "rl_script (rl_default\<lparr>rl_L := 0, rl_dt := 0.1\<rparr>) =
     Inr \<lparr>rl_t = [0], rl_i_L = [0], rl_v_R = [0], rl_v_L = [0], rl_x = 0\<rparr>"
    by (simp add: rl_script_def rl_default_def run_simps)
  have b: "rl_script (rl_default\<lparr>rl_dt := - 1\<rparr>) =
     Inr \<lparr>rl_t = [], rl_i_L = [], rl_v_R = [], rl_v_L = [], rl_x = 0\<rparr>"
    by (simp add: rl_script_def rl_default_def run_simps ceiling_minus_tenth)
  have c: "rl_script (rl_default\<lparr>rl_L := 0\<rparr>) = Inl ZeroDivisionError"
    by (rule rl_script_L0) (simp_all add: rl_default_def rl_n_steps_def py_int_def)
  from a b c show ?thesis by simp
qed

lemma linalg_solve_zero: "linalg_solve M (0, 0) = Inr x \<Longrightarrow> x = (0, 0)"
proof -
  assume a: "linalg_solve M (0, 0) = Inr x"
  obtain a b c d where M: "M = ((a, b), (c, d))" by (metis surj_pair)
  from a show ?thesis by (auto simp: M Let_def split: if_splits)
qed

lemma right_side_vector_zero: "right_side_vector dt A (0, 0) (0, 0) = (0, 0)"
proof -
  obtain a b c d where A: "A = ((a, b), (c, d))" by (metis surj_pair)
  show ?thesis by (simp add: A right_side_vector_def right_side_matrix_def eye2_def)
qed

lemma rlc_advance_zero: "rlc_advance c (0, 0) R (0, 0) = Inr x \<Longrightarrow> x = (0, 0)"
  unfolding rlc_advance_def err_bind_eq_Inr right_side_vector_zero
  by (auto dest: linalg_solve_zero)

lemma rl_zero_input_current:
  assumes run: "rl_script c = Inr s" and V: "rl_V_fonte c = 0"
  shows "i < nat (rl_n_steps c) \<Longrightarrow> rl_i_L s ! i = 0"
proof (induction i)
  case 0
  with rl_script_first(1)[OF run] show ?case by simp
next
  case (Suc i)
  then have "rl_i_L s ! i = 0" by simp
  with rl_script_recurrence(3)[OF run, of i] Suc.prems V show ?case
    by (simp add: lado_direito_def)
qed

lemma rlc_zero_input_state:
  assumes run: "rlc_script c = Inr s" and V: "rlc_V_source c = 0"
  shows "i < nat (rlc_n_steps c) \<Longrightarrow> rlc_i_L s ! i = 0 \<and> rlc_v_C s ! i = 0"
proof (induction i)
  case 0
  with rlc_script_first[OF run] show ?case by simp
next
  case (Suc i)
  then have z: "rlc_i_L s ! i = 0" "rlc_v_C s ! i = 0" by simp_all
  from Suc.prems have "i + 1 < nat (rlc_n_steps c)" by simp
  from rlc_script_recurrence[OF run this] V z
  have "rlc_advance c (0, 0) (rlc_load_resistance c (rlc_t s ! i)) (0, 0)
          = Inr (rlc_i_L s ! (i + 1), rlc_v_C s ! (i + 1))" by simp
  from rlc_advance_zero[OF this] show ?case by simp
qed

text \<open>
  C7, as the scripts have it. With a zero source voltage (the initial state of both scripts
  is zero), for every schedule and every index of a run that completes, the state series
  \<open>i_L\<close>, \<open>v_C\<close> and the outputs \<open>v_R\<close>, \<open>v_L\<close> are zero, and \<open>i_load\<close> is zero at index 0 and
  at every index where the load resistance of the schedule is not zero; at an index from 1
  on where it is zero, \<open>i_load\<close> holds the \<open>nan\<close> of NumPy's \<open>0.0 / 0\<close>.
\<close>

theorem zero_input_stays_zero:
  "(rl_V_fonte c = 0 \<and> rl_script c = Inr s \<longrightarrow>
      (\<forall>i<length (rl_i_L s). rl_i_L s ! i = 0 \<and> rl_v_R s ! i = 0 \<and> rl_v_L s ! i = 0))
   \<and> (rlc_V_source c' = 0 \<and> rlc_script c' = Inr s' \<longrightarrow>
      (\<forall>i<length (rlc_i_L s'). rlc_i_L s' ! i = 0 \<and> rlc_v_C s' ! i = 0
         \<and> rlc_i_load s' ! i =
             (if 1 \<le> i \<and> rlc_load_resistance c' (rlc_t s' ! i) = 0 then NaN else Finite 0)))"
proof -
  have "rl_i_L s ! i = 0 \<and> rl_v_R s ! i = 0 \<and> rl_v_L s ! i = 0"
    if V: "rl_V_fonte c = 0" and run: "rl_script c = Inr s" and i: "i < length (rl_i_L s)"
    for i
  proof -
    from i rl_script_length[OF run] have i': "i < nat (rl_n_steps c)" by simp
    have iL: "rl_i_L s ! i = 0" by (rule rl_zero_input_current[OF run V i'])
    have "rl_v_R s ! i = 0 \<and> rl_v_L s ! i = 0"
    proof (cases "i = 0")
      case True
      with rl_script_first[OF run] i' show ?thesis by simp
    next
      case False
      then have "1 \<le> i" by simp
      from rl_script_outputs[OF run this i'] iL V show ?thesis by simp
    qed
    with iL show ?thesis by simp
  qed
  moreover
  have "rlc_i_L s' ! i = 0 \<and> rlc_v_C s' ! i = 0
         \<and> rlc_i_load s' ! i =
             (if 1 \<le> i \<and> rlc_load_resistance c' (rlc_t s' ! i) = 0 then NaN else Finite 0)"
    if V: "rlc_V_source c' = 0" and run: "rlc_script c' = Inr s'"
      and i: "i < length (rlc_i_L s')" for i
  proof -
    from i rlc_script_length[OF run] have i': "i < nat (rlc_n_steps c')" by simp
    from rlc_zero_input_state[OF run V i']
    have st: "rlc_i_L s' ! i = 0" "rlc_v_C s' ! i = 0" by simp_all
    have "rlc_i_load s' ! i =
        (if 1 \<le> i \<and> rlc_load_resistance c' (rlc_t s' ! i) = 0 then NaN else Finite 0)"
    proof (cases "i = 0")
      case True
      with rlc_script_first(3)[OF run] i' show ?thesis by simp
    next
      case False
      then have "1 \<le> i" by simp
      from rlc_script_outputs[OF run this i'] st this show ?thesis
        by (simp add: np_divide_def)
    qed
    with st show ?thesis by simp
  qed
  ultimately show ?thesis by blast
qed

lemma rl_two_point_zero_run:
  "rl_script (rl_two_point\<lparr>rl_V_fonte := 0\<rparr>) =
     Inr \<lparr>rl_t = [0, 0.1], rl_i_L = [0, 0], rl_v_R = [0, 0], rl_v_L = [0, 0], rl_x = 0\<rparr>"
  by (simp add: rl_script_def rl_two_point_def rl_body_def run_simps pegar_resistencia_def
      eval_nat_numeral upt_rec)

lemma rlc_two_point_zero_run:
  "rlc_script (rlc_two_point\<lparr>rlc_V_source := 0\<rparr>) =
     Inr \<lparr>rlc_t = [0, 2], rlc_i_L = [0, 0], rlc_v_C = [0, 0],
          rlc_i_load = [Finite 0, Finite 0], rlc_x = (0, 0)\<rparr>"
  by (simp add: rlc_script_def rlc_two_point_def rlc_body_def run_simps A_load_def
      left_side_def right_side_vector_def right_side_matrix_def eye2_def np_divide_def
      load_resistance_def eval_nat_numeral upt_rec)

lemma rlc_short_run:
  "rlc_script rlc_short =
     Inr \<lparr>rlc_t = [0, 2], rlc_i_L = [0, 0], rlc_v_C = [0, 0], rlc_i_load = [Finite 0, NaN],
          rlc_x = (0, 0)\<rparr>"
  by (simp add: rlc_script_def rlc_short_def rlc_body_def run_simps A_load_def
      left_side_def right_side_vector_def right_side_matrix_def eye2_def np_divide_def
      eval_nat_numeral upt_rec)

text \<open>Both scripts with a zero source on a grid of two points; all entries are zero.\<close>

theorem zero_input_stays_zero_witness:
  "rl_script (rl_two_point\<lparr>rl_V_fonte := 0\<rparr>) =
     Inr \<lparr>rl_t = [0, 0.1], rl_i_L = [0, 0], rl_v_R = [0, 0], rl_v_L = [0, 0], rl_x = 0\<rparr>
   \<and> rlc_script (rlc_two_point\<lparr>rlc_V_source := 0\<rparr>) =
     Inr \<lparr>rlc_t = [0, 2], rlc_i_L = [0, 0], rlc_v_C = [0, 0],
          rlc_i_load = [Finite 0, Finite 0], rlc_x = (0, 0)\<rparr>
   \<and> [0, 0 :: real] ! 1 = 0
   \<and> load_resistance 50 ([0, 2] ! 1) = 25
   \<and> [Finite 0, Finite 0] ! 1 = Finite 0"
proof -
  note inst = zero_input_stays_zero
      [of "rl_two_point\<lparr>rl_V_fonte := 0\<rparr>" _ "rlc_two_point\<lparr>rlc_V_source := 0\<rparr>"]
  have a: "[0, 0 :: real] ! 1 = 0"
    using inst [THEN conjunct1, rule_format, OF conjI, OF _ rl_two_point_zero_run, of 1]
    by simp
  have r: "load_resistance 50 ([0, 2] ! 1) = 25" by (simp add: load_resistance_def)
  have b: "[Finite 0, Finite 0] ! 1 = Finite 0"
    using inst [THEN conjunct2, rule_format, OF conjI, OF _ rlc_two_point_zero_run, of 1] r
    by (simp add: rlc_two_point_def)
  from a r b rl_two_point_zero_run rlc_two_point_zero_run show ?thesis by simp
qed

text \<open>
  C7 as stated fails for a schedule that drops the load resistance to zero: with a zero
  source on the grid \<open>[0, 2]\<close>, resistance 1 before \<open>t = 1\<close> and 0 from then on, the run
  completes and \<open>i_load[1]\<close> is \<open>nan\<close>, not zero.
\<close>

theorem zero_input_counterexample:
  "rlc_V_source rlc_short = 0
   \<and> rlc_script rlc_short =
     Inr \<lparr>rlc_t = [0, 2], rlc_i_L = [0, 0], rlc_v_C = [0, 0], rlc_i_load = [Finite 0, NaN],
          rlc_x = (0, 0)\<rparr>
   \<and> [Finite 0, NaN] ! 1 \<noteq> Finite 0"
  using rlc_short_run by (simp add: rlc_short_def)

lemma rl_constant_R_n_steps: "rl_n_steps rl_constant_R = 10000"
  by (simp add: rl_n_steps_def rl_constant_R_def rl_default_def py_int_def)

lemma rl_constant_R_ok: "\<exists>s. rl_script rl_constant_R = Inr s"
proof (rule rl_script_ok)
  show "rl_dt rl_constant_R \<noteq> 0" by (simp add: rl_constant_R_def rl_default_def)
  show "0 \<le> rl_n_steps rl_constant_R" by (simp add: rl_constant_R_n_steps)
  show "rl_L rl_constant_R \<noteq> 0" by (simp add: rl_constant_R_def rl_default_def)
  show "\<forall>\<tau>. lado_esquerdo (rl_dt rl_constant_R)
            (- rl_resistencia rl_constant_R \<tau> / rl_L rl_constant_R) \<noteq> 0"
    by (simp add: rl_constant_R_def rl_default_def lado_esquerdo_def)
qed

lemma rl_constant_R_step:
  "lado_direito (rl_dt rl_constant_R) (- rl_resistencia rl_constant_R \<tau> / rl_L rl_constant_R)
       (1 / rl_L rl_constant_R) x (rl_V_fonte rl_constant_R)
     / lado_esquerdo (rl_dt rl_constant_R)
         (- rl_resistencia rl_constant_R \<tau> / rl_L rl_constant_R)
   = (1999 * x + 44) / 2001"
  by (simp add: rl_constant_R_def rl_default_def lado_direito_def lado_esquerdo_def
      field_simps)

lemma rl_constant_R_closed_form:
  assumes run: "rl_script rl_constant_R = Inr s"
  shows "i < 10000 \<Longrightarrow> rl_i_L s ! i = 22 * (1 - (1999 / 2001) ^ i)"
proof (induction i)
  case 0
  with rl_script_first(1)[OF run] show ?case by (simp add: rl_constant_R_n_steps)
next
  case (Suc i)
  then have ih: "rl_i_L s ! i = 22 * (1 - (1999 / 2001) ^ i)" by simp
  from Suc.prems have "i + 1 < nat (rl_n_steps rl_constant_R)"
    by (simp add: rl_constant_R_n_steps)
  from rl_script_recurrence(3)[OF run this]
  have "rl_i_L s ! (i + 1) = (1999 * rl_i_L s ! i + 44) / 2001"
    by (simp only: rl_constant_R_step)
  then show ?case unfolding ih by (simp add: field_simps)
qed

lemma exp_9_lower: "(2200 :: real) \<le> exp 9"
proof -
  have "(1 + 9 / of_nat 30) ^ 30 \<le> exp (9 :: real)"
    by (rule exp_ge_one_plus_x_over_n_power_n) simp_all
  moreover have "(2200 :: real) \<le> (1 + 9 / of_nat 30) ^ 30"
    by (simp add: power_divide)
  ultimately show ?thesis by linarith
qed

lemma exp_minus_9_upper: "exp (- 9 :: real) \<le> 1 / 2200"
proof -
  have "exp (- 9 :: real) = 1 / exp 9" by (simp add: exp_minus inverse_eq_divide)
  also have "\<dots> \<le> 1 / 2200" using exp_9_lower by (simp add: field_simps)
  finally show ?thesis .
qed

lemma decay_power_upper: "(1999 / 2001 :: real) ^ 9999 \<le> 1 / 2200"
proof -
  have "(1999 / 2001 :: real) = 1 + (- (2 / 2001))" by simp
  also have "\<dots> \<le> exp (- (2 / 2001))" by (rule exp_ge_add_one_self)
  finally have "(1999 / 2001 :: real) ^ 9999 \<le> exp (- (2 / 2001)) ^ 9999"
    by (intro power_mono) simp_all
  also have "\<dots> = exp (of_nat 9999 * (- (2 / 2001)))" by (simp only: exp_of_nat_mult)
  also have "\<dots> \<le> exp (- 9)" by simp
  also note exp_minus_9_upper
  finally show ?thesis .
qed

lemma two_small_tails:
  fixes p e :: real
  assumes "0 \<le> p" and "p \<le> 1 / 2200" and "0 \<le> e" and "e \<le> 1 / 2200"
  shows "\<bar>22 * (1 - p) - 22 * (1 - e)\<bar> \<le> 1 / 100"
proof -
  have "22 * (1 - p) - 22 * (1 - e) \<le> 1 / 100"
    using assms by (simp add: algebra_simps)
  moreover have "- (22 * (1 - p) - 22 * (1 - e)) \<le> 1 / 100"
    using assms by (simp add: algebra_simps)
  ultimately show ?thesis by (rule abs_leI)
qed

text \<open>
  C9, in exact real arithmetic. The RL script with its own constants (L = 0.1, V = 220,
  t_max = 0.1, dt = 1e-5) and the resistance held at 10 completes with 10000 samples;
  the current is \<open>22 (1 - (1999/2001)^i)\<close> at index i, so it never decreases from one sample
  to the next, never exceeds the steady state V/R = 22, and its last sample is within
  0.01 of \<open>22 (1 - exp (- t_max R / L))\<close>.
\<close>

theorem rl_energization_monotone:
  "\<exists>s. rl_script rl_constant_R = Inr s \<and> length (rl_i_L s) = 10000
      \<and> (\<forall>i. i + 1 < length (rl_i_L s) \<longrightarrow> rl_i_L s ! i \<le> rl_i_L s ! (i + 1))
      \<and> (\<forall>i < length (rl_i_L s). rl_i_L s ! i \<le> rl_V_fonte rl_constant_R / 10
            \<and> rl_i_L s ! i = 22 * (1 - (1999 / 2001) ^ i))
      \<and> rl_V_fonte rl_constant_R / 10 = 22
      \<and> \<bar>rl_i_L s ! (length (rl_i_L s) - 1)
           - 22 * (1 - exp (- rl_t_max rl_constant_R * 10 / rl_L rl_constant_R))\<bar> \<le> 1 / 100"
proof -
  from rl_constant_R_ok obtain s where run: "rl_script rl_constant_R = Inr s" by blast
  have len: "length (rl_i_L s) = 10000"
    using rl_script_length(2)[OF run] by (simp add: rl_constant_R_n_steps)
  note cf = rl_constant_R_closed_form[OF run]
  have q0: "0 \<le> (1999 / 2001 :: real) ^ i" for i by simp
  have mono: "rl_i_L s ! i \<le> rl_i_L s ! (i + 1)" if "i + 1 < 10000" for i
  proof -
    have "(1999 / 2001 :: real) ^ (i + 1) \<le> (1999 / 2001) ^ i"
      by (rule power_decreasing) simp_all
    with that cf[of i] cf[of "i + 1"] show ?thesis by simp
  qed
  have bound: "rl_i_L s ! i \<le> 22" if "i < 10000" for i
    using cf[OF that] q0[of i] by simp
  have V: "rl_V_fonte rl_constant_R / 10 = 22"
    by (simp add: rl_constant_R_def rl_default_def)
  have last: "rl_i_L s ! 9999 = 22 * (1 - (1999 / 2001) ^ 9999)" by (rule cf) simp
  have e: "- rl_t_max rl_constant_R * 10 / rl_L rl_constant_R = - 10"
    by (simp add: rl_constant_R_def rl_default_def)
  have e10: "exp (- 10 :: real) \<le> 1 / 2200"
  proof -
    have "exp (- 10 :: real) \<le> exp (- 9)" by simp
    with exp_minus_9_upper show ?thesis by linarith
  qed
  have e10': "0 \<le> exp (- 10 :: real)" by simp
  have fin: "\<bar>rl_i_L s ! 9999 - 22 * (1 - exp (- 10))\<bar> \<le> 1 / 100"
    unfolding last by (rule two_small_tails[OF q0 decay_power_upper e10' e10])
  show ?thesis
    using run len mono bound cf V fin unfolding e
    by (intro exI[of _ s]) simp
qed

text \<open>The first two samples, the last one, and the bound, read off the run.\<close>

theorem rl_energization_monotone_witness:
  "\<exists>s. rl_script rl_constant_R = Inr s
      \<and> rl_i_L s ! 0 \<le> rl_i_L s ! 1 \<and> rl_i_L s ! 1 = 44 / 2001
      \<and> rl_i_L s ! 9999 \<le> 22
      \<and> \<bar>rl_i_L s ! 9999 - 22 * (1 - exp (- 10))\<bar> \<le> 1 / 100"
proof -
  from rl_energization_monotone obtain s where run: "rl_script rl_constant_R = Inr s"
    and len: "length (rl_i_L s) = 10000"
    and mono: "\<forall>i. i + 1 < length (rl_i_L s) \<longrightarrow> rl_i_L s ! i \<le> rl_i_L s ! (i + 1)"
    and bound: "\<forall>i < length (rl_i_L s). rl_i_L s ! i \<le> rl_V_fonte rl_constant_R / 10
            \<and> rl_i_L s ! i = 22 * (1 - (1999 / 2001) ^ i)"
    and V: "rl_V_fonte rl_constant_R / 10 = 22"
    and fin: "\<bar>rl_i_L s ! (length (rl_i_L s) - 1)
           - 22 * (1 - exp (- rl_t_max rl_constant_R * 10 / rl_L rl_constant_R))\<bar> \<le> 1 / 100"
    by blast
  have e: "- rl_t_max rl_constant_R * 10 / rl_L rl_constant_R = - 10"
    by (simp add: rl_constant_R_def rl_default_def)
  from mono len have a: "rl_i_L s ! 0 \<le> rl_i_L s ! 1" by simp
  from bound len have "rl_i_L s ! 1 = 22 * (1 - (1999 / 2001) ^ 1)" by simp
  then have b: "rl_i_L s ! 1 = 44 / 2001" by simp
  from bound len V have c: "rl_i_L s ! 9999 \<le> 22" by simp
  from fin len e have d: "\<bar>rl_i_L s ! 9999 - 22 * (1 - exp (- 10))\<bar> \<le> 1 / 100" by simp
  from run a b c d show ?thesis by blast
qed

end
